theory Spec2Isabelle
  imports Complex_Main "HOL-Library.Sublist"
begin

section \<open>Python values\<close>

text \<open>
  A Python \<^verbatim>\<open>str\<close> is a list of code points; the model covers the code points
  below 256, one \<^typ>\<open>char\<close> each. A Python \<^verbatim>\<open>float\<close> is the rational it denotes,
  or one of the three special values; the rounding error of the binary representation
  is not modelled.
\<close>

datatype pyfloat = Fin rat | NaN | PosInf | NegInf

text \<open>The argument types the validators accept: \<^verbatim>\<open>None\<close>, int, float and str.\<close>

datatype pyval = PNone | PInt int | PFloat pyfloat | PStr string

text \<open>Truthiness, as \<^verbatim>\<open>not x\<close> reads it.\<close>

fun truthy :: "pyval \<Rightarrow> bool" where
  "truthy PNone = False"
| "truthy (PInt n) = (n \<noteq> 0)"
| "truthy (PFloat (Fin x)) = (x \<noteq> 0)"
| "truthy (PFloat f) = True"
| "truthy (PStr s) = (s \<noteq> [])"

text \<open>\<^verbatim>\<open>x <= 0\<close> and \<^verbatim>\<open>x > m\<close> on floats: every comparison with NaN is false.\<close>

fun float_le :: "pyfloat \<Rightarrow> rat \<Rightarrow> bool" where
  "float_le (Fin x) m = (x \<le> m)"
| "float_le NaN m = False"
| "float_le PosInf m = False"
| "float_le NegInf m = True"

fun float_gt :: "pyfloat \<Rightarrow> rat \<Rightarrow> bool" where
  "float_gt (Fin x) m = (x > m)"
| "float_gt NaN m = False"
| "float_gt PosInf m = True"
| "float_gt NegInf m = False"

subsection \<open>Strings\<close>

text \<open>\<^verbatim>\<open>str.strip()\<close> removes the characters for which \<^verbatim>\<open>str.isspace\<close> holds.\<close>

definition py_isspace :: "char \<Rightarrow> bool" where
  "py_isspace c =
     (let n = (of_char c :: nat)
      in (9 \<le> n \<and> n \<le> 13) \<or> (28 \<le> n \<and> n \<le> 32) \<or> n = 133 \<or> n = 160)"

definition py_strip :: "string \<Rightarrow> string" where
  "py_strip s = rev (dropWhile py_isspace (rev (dropWhile py_isspace s)))"

text \<open>\<^verbatim>\<open>str.lower()\<close>, one code point at a time.\<close>

definition py_lower_char :: "char \<Rightarrow> char" where
  "py_lower_char c =
     (let n = (of_char c :: nat)
      in if (65 \<le> n \<and> n \<le> 90) \<or> (192 \<le> n \<and> n \<le> 222 \<and> n \<noteq> 215)
         then char_of (n + 32) else c)"

definition py_lower :: "string \<Rightarrow> string" where
  "py_lower s = map py_lower_char s"

text \<open>The character classes of the regular expressions: \<^verbatim>\<open>\d\<close>, \<^verbatim>\<open>\w\<close> and
  \<^verbatim>\<open>[a-zA-Z0-9_-]\<close>.\<close>

definition re_digit :: "char \<Rightarrow> bool" where
  "re_digit c = (let n = (of_char c :: nat) in 48 \<le> n \<and> n \<le> 57)"

definition re_word :: "char \<Rightarrow> bool" where
  "re_word c =
     (let n = (of_char c :: nat)
      in (48 \<le> n \<and> n \<le> 57) \<or> (65 \<le> n \<and> n \<le> 90) \<or> n = 95 \<or> (97 \<le> n \<and> n \<le> 122)
         \<or> n = 170 \<or> n = 178 \<or> n = 179 \<or> n = 181 \<or> n = 185 \<or> n = 186
         \<or> (188 \<le> n \<and> n \<le> 190) \<or> (192 \<le> n \<and> n \<le> 214) \<or> (216 \<le> n \<and> n \<le> 246)
         \<or> 248 \<le> n)"

definition order_id_char :: "char \<Rightarrow> bool" where
  "order_id_char c =
     (let n = (of_char c :: nat)
      in (97 \<le> n \<and> n \<le> 122) \<or> (65 \<le> n \<and> n \<le> 90) \<or> (48 \<le> n \<and> n \<le> 57)
         \<or> n = 95 \<or> n = 45)"

text \<open>\<^verbatim>\<open>str(n)\<close> and \<^verbatim>\<open>int(s)\<close> for decimal digits.\<close>

fun str_nat :: "nat \<Rightarrow> string" where
  "str_nat n = (if n < 10 then [char_of (48 + n)]
                else str_nat (n div 10) @ [char_of (48 + n mod 10)])"

definition str_int :: "int \<Rightarrow> string" where
  "str_int i = (if i < 0 then CHR ''-'' # str_nat (nat (- i)) else str_nat (nat i))"

definition nat_of_digits :: "string \<Rightarrow> nat" where
  "nat_of_digits s = foldl (\<lambda>acc c. 10 * acc + (of_char c - 48)) 0 s"

section \<open>The validation layer (validator.py)\<close>

text \<open>
  The dataclass \<^verbatim>\<open>ValidationResult\<close>. The message keeps the fixed text of the
  source's message; a value interpolated into it is left out.
\<close>

record 'a ValidationResult =
  is_valid :: bool
  error_message :: "string option"
  sanitized_value :: "'a option"

definition invalid :: "string \<Rightarrow> 'a ValidationResult" where
  "invalid msg = \<lparr>is_valid = False, error_message = Some msg, sanitized_value = None\<rparr>"

definition valid :: "'a \<Rightarrow> 'a ValidationResult" where
  "valid v = \<lparr>is_valid = True, error_message = None, sanitized_value = Some v\<rparr>"

text \<open>The one exception that leaves a validator: the handlers there catch
  \<^verbatim>\<open>ValueError\<close> and \<^verbatim>\<open>TypeError\<close> only.\<close>

datatype py_exn = OverflowError

subsection \<open>validate_order_id\<close>

definition validate_order_id :: "pyval \<Rightarrow> string ValidationResult" where
  "validate_order_id order_id =
     (case order_id of
        PStr s \<Rightarrow>
          if s = [] then invalid ''Order ID is required and must be string''
          else
            (let cleaned_id = filter (\<lambda>c. re_word c \<or> c = CHR ''-'') (py_strip s)
             in if length cleaned_id < 3 \<or> length cleaned_id > 64
                  then invalid ''Order ID must be 3-64 characters''
                else if \<not> (1 \<le> length cleaned_id \<and> length cleaned_id \<le> 64
                            \<and> list_all order_id_char cleaned_id)
                  then invalid ''Invalid order ID format''
                else valid cleaned_id)
      | _ \<Rightarrow> invalid ''Order ID is required and must be string'')"

subsection \<open>validate_telegram_id\<close>

text \<open>\<^verbatim>\<open>int(x)\<close> of a float truncates towards zero.\<close>

definition trunc_rat :: "rat \<Rightarrow> int" where
  "trunc_rat x = (if x < 0 then - \<lfloor>- x\<rfloor> else \<lfloor>x\<rfloor>)"

definition check_telegram_id :: "int \<Rightarrow> int ValidationResult" where
  "check_telegram_id n =
     (if n \<le> 0 then invalid ''Telegram ID must be positive''
      else if n > 9999999999 then invalid ''Telegram ID too large''
      else valid n)"

fun validate_telegram_id :: "pyval \<Rightarrow> py_exn + int ValidationResult" where
  "validate_telegram_id PNone = Inr (invalid ''Telegram ID is required'')"
| "validate_telegram_id (PStr s) =
     (let cleaned_id = filter re_digit (py_strip s)
      in if cleaned_id = [] then Inr (invalid ''Invalid Telegram ID format'')
         else Inr (check_telegram_id (int (nat_of_digits cleaned_id))))"
| "validate_telegram_id (PInt n) = Inr (check_telegram_id n)"
| "validate_telegram_id (PFloat (Fin x)) = Inr (check_telegram_id (trunc_rat x))"
| "validate_telegram_id (PFloat NaN) = Inr (invalid ''Invalid Telegram ID'')"
| "validate_telegram_id (PFloat PosInf) = Inl OverflowError"
| "validate_telegram_id (PFloat NegInf) = Inl OverflowError"

subsection \<open>validate_amount\<close>

text \<open>
  \<^verbatim>\<open>float(s)\<close> for a string of digits and at most one dot, which is all that
  \<^verbatim>\<open>re.sub(r'[^\d.]', '', ...)\<close> leaves: \<open>None\<close> is the \<^verbatim>\<open>ValueError\<close> of a string
  without any digit.
\<close>

definition float_of_cleaned :: "string \<Rightarrow> rat option" where
  "float_of_cleaned s =
     (let ip = takeWhile re_digit s; rest = dropWhile re_digit s
      in if rest = [] then (if ip = [] then None else Some (of_nat (nat_of_digits ip)))
         else (let fp = tl rest
               in if ip = [] \<and> fp = [] then None
                  else Some (of_nat (nat_of_digits ip)
                             + of_nat (nat_of_digits fp) / 10 ^ length fp)))"

text \<open>\<^verbatim>\<open>float(n)\<close> of an int raises \<^verbatim>\<open>OverflowError\<close> beyond the largest double.\<close>

definition float_overflows :: "int \<Rightarrow> bool" where
  "float_overflows n = (\<bar>n\<bar> \<ge> 2 ^ 1024 - 2 ^ 970)"

text \<open>\<^verbatim>\<open>round(x, 2)\<close>: to the nearest hundredth, a tie to the even one.\<close>

definition round_half_even :: "rat \<Rightarrow> int" where
  "round_half_even y =
     (let n = \<lfloor>y\<rfloor>; f = y - of_int n
      in if f < 1 / 2 then n else if f > 1 / 2 then n + 1
         else if even n then n else n + 1)"

fun py_round2 :: "pyfloat \<Rightarrow> pyfloat" where
  "py_round2 (Fin x) = Fin (of_int (round_half_even (x * 100)) / 100)"
| "py_round2 f = f"

definition check_amount :: "pyfloat \<Rightarrow> pyfloat ValidationResult" where
  "check_amount a =
     (if float_le a 0 then invalid ''Amount must be positive''
      else if float_gt a 10000 then invalid ''Amount exceeds maximum allowed''
      else valid (py_round2 a))"

fun validate_amount :: "pyval \<Rightarrow> py_exn + pyfloat ValidationResult" where
  "validate_amount PNone = Inr (invalid ''Amount is required'')"
| "validate_amount (PStr s) =
     (let cleaned_amount = filter (\<lambda>c. re_digit c \<or> c = CHR ''.'') (py_strip s)
      in if cleaned_amount = [] \<or> count_list cleaned_amount (CHR ''.'') > 1
           then Inr (invalid ''Invalid amount format'')
         else (case float_of_cleaned cleaned_amount of
                 None \<Rightarrow> Inr (invalid ''Invalid amount'')
               | Some x \<Rightarrow> Inr (check_amount (Fin x))))"
| "validate_amount (PInt n) =
     (if float_overflows n then Inl OverflowError
      else Inr (check_amount (Fin (of_int n))))"
| "validate_amount (PFloat f) = Inr (check_amount f)"

subsection \<open>validate_payment_method\<close>

definition valid_methods :: "string list" where
  "valid_methods = [''OxaPay'', ''Cryptomus'', ''NOWPayments'', ''Stars'']"

definition validate_payment_method :: "pyval \<Rightarrow> string ValidationResult" where
  "validate_payment_method m =
     (case m of
        PStr s \<Rightarrow>
          if s = [] then invalid ''Payment method is required and must be string''
          else
            (let cleaned_method = py_strip s
             in case find (\<lambda>v. py_lower v = py_lower cleaned_method) valid_methods of
                  None \<Rightarrow> invalid ''Invalid payment method. Valid methods: OxaPay, Cryptomus, NOWPayments, Stars''
                | Some match \<Rightarrow> valid match)
      | _ \<Rightarrow> invalid ''Payment method is required and must be string'')"

subsection \<open>sanitize_string and sanitize_transaction_metadata\<close>

text \<open>The characters \<^verbatim>\<open>re.sub(r'[<>"\';]', '', ...)\<close> removes.\<close>

definition dangerous :: "char \<Rightarrow> bool" where
  "dangerous c = (c \<in> set [CHR ''<'', CHR ''>'', CHR 0x22, CHR 0x27, CHR '';''])"

definition sanitize_string :: "string \<Rightarrow> nat \<Rightarrow> string" where
  "sanitize_string text max_length =
     (if text = [] then []
      else (let cleaned = filter (\<lambda>c. \<not> dangerous c) (py_strip text)
            in if length cleaned > max_length then take max_length cleaned else cleaned))"

text \<open>
  JSON values as \<^verbatim>\<open>json.dumps\<close> and \<^verbatim>\<open>response.json()\<close> handle them; floats are
  left out, and the keys of an object are strings. An object keeps the insertion order
  of the Python dict.
\<close>

datatype json =
    JNull
  | JBool bool
  | JInt int
  | JStr string
  | JArr "json list"
  | JObj "(string \<times> json) list"

definition hex_digit :: "nat \<Rightarrow> char" where
  "hex_digit n = (if n < 10 then char_of (48 + n) else char_of (87 + n))"

text \<open>One character of a JSON string under \<^verbatim>\<open>ensure_ascii=True\<close>.\<close>

definition json_escape :: "char \<Rightarrow> string" where
  "json_escape c =
     (let n = (of_char c :: nat)
      in if n = 34 then [CHR 0x5C, CHR 0x22]
         else if n = 92 then [CHR 0x5C, CHR 0x5C]
         else if n = 10 then [CHR 0x5C, CHR ''n'']
         else if n = 13 then [CHR 0x5C, CHR ''r'']
         else if n = 9 then [CHR 0x5C, CHR ''t'']
         else if n = 8 then [CHR 0x5C, CHR ''b'']
         else if n = 12 then [CHR 0x5C, CHR ''f'']
         else if 32 \<le> n \<and> n \<le> 126 then [c]
         else [CHR 0x5C, CHR ''u'', CHR ''0'', CHR ''0'', hex_digit (n div 16), hex_digit (n mod 16)])"

definition json_string :: "string \<Rightarrow> string" where
  "json_string s = CHR 0x22 # concat (map json_escape s) @ [CHR 0x22]"

text \<open>\<^verbatim>\<open>sep.join(parts)\<close>\<close>

fun join :: "string \<Rightarrow> string list \<Rightarrow> string" where
  "join sep [] = []"
| "join sep [x] = x"
| "join sep (x # y # ys) = x @ sep @ join sep (y # ys)"

text \<open>\<^verbatim>\<open>json.dumps\<close> with its default separators.\<close>

fun json_dumps :: "json \<Rightarrow> string" where
  "json_dumps JNull = ''null''"
| "json_dumps (JBool b) = (if b then ''true'' else ''false'')"
| "json_dumps (JInt i) = str_int i"
| "json_dumps (JStr s) = json_string s"
| "json_dumps (JArr xs) = ''['' @ join '', '' (map json_dumps xs) @ '']''"
| "json_dumps (JObj kvs) =
     ''{'' @ join '', '' (map (\<lambda>kv. json_string (fst kv) @ '': '' @ json_dumps (snd kv)) kvs)
     @ ''}''"

text \<open>
  The metadata argument: a dict, a string, or something else, of which the model has
  \<^verbatim>\<open>None\<close> and an int (\<^verbatim>\<open>str(metadata)\<close> is then its text).
\<close>

datatype metadata_arg = MetaDict "(string \<times> json) list" | MetaStr string | MetaNone | MetaInt int

definition sanitize_value :: "json \<Rightarrow> json" where
  "sanitize_value v = (case v of JStr s \<Rightarrow> JStr (sanitize_string s 500) | _ \<Rightarrow> v)"

fun sanitize_transaction_metadata :: "metadata_arg \<Rightarrow> string" where
  "sanitize_transaction_metadata (MetaDict kvs) =
     json_dumps (JObj (map (\<lambda>kv. (fst kv, sanitize_value (snd kv))) kvs))"
| "sanitize_transaction_metadata (MetaStr s) = sanitize_string s 1000"
| "sanitize_transaction_metadata MetaNone = ''None''"
| "sanitize_transaction_metadata (MetaInt i) = str_int i"

subsection \<open>validate_transaction_input\<close>

record validated_data =
  v_tx_id :: string
  v_user_id :: int
  v_amount :: pyfloat
  v_method :: string
  v_metadata :: string

text \<open>Every exception is caught and gives \<^verbatim>\<open>None\<close>.\<close>

definition validate_transaction_input ::
  "pyval \<Rightarrow> pyval \<Rightarrow> pyval \<Rightarrow> pyval \<Rightarrow> metadata_arg \<Rightarrow> validated_data option" where
  "validate_transaction_input txid uid amt meth meta =
     (if \<not> truthy txid then None
      else let tx_validation = validate_order_id txid
      in if \<not> is_valid tx_validation then None
      else if uid = PNone then None
      else case validate_telegram_id uid of
        Inl e \<Rightarrow> None
      | Inr user_validation \<Rightarrow>
      if \<not> is_valid user_validation then None
      else if amt = PNone then None
      else case validate_amount amt of
        Inl e \<Rightarrow> None
      | Inr amount_validation \<Rightarrow>
      if \<not> is_valid amount_validation then None
      else if \<not> truthy meth then None
      else let method_validation = validate_payment_method meth
      in if \<not> is_valid method_validation then None
      else (case (sanitized_value tx_validation, sanitized_value user_validation,
                  sanitized_value amount_validation, sanitized_value method_validation) of
              (Some t, Some u, Some a, Some m) \<Rightarrow>
                Some \<lparr>v_tx_id = t, v_user_id = u, v_amount = a, v_method = m,
                      v_metadata = sanitize_transaction_metadata meta\<rparr>
            | _ \<Rightarrow> None))"

section \<open>The transaction ledger (database.py)\<close>

text \<open>
  The two tables of \<^verbatim>\<open>init_db\<close>. A row is a record with one field per column; a
  column that may hold NULL is an option. Timestamps are the ISO strings the code
  stores, amounts (SQLite REAL, Python float) are the rationals they denote.
\<close>

record user_row =
  telegram_id :: int
  join_date :: string
  last_interaction :: string
  is_vip :: bool
  user_created_at :: string
  user_updated_at :: string

record tx_row =
  tx_id :: string
  user_id :: int
  amount :: pyfloat
  tx_method :: string
  metadata :: string
  status :: string
  timestamp :: string
  processed_at :: "string option"
  created_at :: string
  updated_at :: "string option"

text \<open>
  \<^verbatim>\<open>CREATE TABLE IF NOT EXISTS\<close> keeps a table that is already in the file, so the
  columns of \<^verbatim>\<open>transactions\<close> are part of the stored state. The field
  \<open>updated_at\<close> of a row is only ever written when the table has that column.
\<close>

record database =
  users :: "user_row list"
  tx_columns :: "string list"
  transactions :: "tx_row list"

definition init_columns :: "string list" where
  "init_columns =
     [''tx_id'', ''user_id'', ''amount'', ''method'', ''metadata'', ''status'',
      ''timestamp'', ''processed_at'', ''created_at'']"

text \<open>\<^verbatim>\<open>init_db\<close> on a new database file.\<close>

definition init_db :: database where
  "init_db = \<lparr>users = [], tx_columns = init_columns, transactions = []\<rparr>"

datatype db_error = OperationalError | IntegrityError

text \<open>
  One call of \<^verbatim>\<open>_db_manager.execute_update\<close> or \<^verbatim>\<open>execute_query\<close> either
  raises (the connection context manager rolls the statement back and re-raises) or
  runs the statement and, for an update, commits it. The flag \<open>raises\<close> stands for a
  failure of the storage itself (a locked or unavailable database).
\<close>

text \<open>
  \<^verbatim>\<open>UPDATE transactions SET status = ?, processed_at = ?, updated_at = ? WHERE tx_id = ?\<close>.
  SQLite refuses the statement when the table lacks a column it assigns.
\<close>

definition has_update_columns :: "database \<Rightarrow> bool" where
  "has_update_columns db =
     (set [''status'', ''processed_at'', ''updated_at''] \<subseteq> set (tx_columns db))"

definition set_tx_status :: "string \<Rightarrow> string \<Rightarrow> string \<Rightarrow> database \<Rightarrow> database" where
  "set_tx_status txid st now db =
     db\<lparr>transactions :=
          map (\<lambda>r. if tx_id r = txid
                    then r\<lparr>status := st, processed_at := Some now, updated_at := Some now\<rparr>
                    else r) (transactions db)\<rparr>"

definition update_tx_status_stmt ::
  "bool \<Rightarrow> database \<Rightarrow> string \<Rightarrow> string \<Rightarrow> string \<Rightarrow> db_error + (nat \<times> database)" where
  "update_tx_status_stmt raises db st now txid =
     (if raises then Inl OperationalError
      else if \<not> has_update_columns db then Inl OperationalError
      else Inr (length (filter (\<lambda>r. tx_id r = txid) (transactions db)),
                set_tx_status txid st now db))"

text \<open>\<^verbatim>\<open>SELECT user_id FROM transactions WHERE tx_id = ?\<close>\<close>

definition select_user_id_stmt :: "bool \<Rightarrow> database \<Rightarrow> string \<Rightarrow> db_error + int list" where
  "select_user_id_stmt raises db txid =
     (if raises then Inl OperationalError
      else Inr (map user_id (filter (\<lambda>r. tx_id r = txid) (transactions db))))"

text \<open>\<^verbatim>\<open>UPDATE users SET is_vip = 1, updated_at = ? WHERE telegram_id = ?\<close>\<close>

definition set_user_vip :: "int \<Rightarrow> string \<Rightarrow> database \<Rightarrow> database" where
  "set_user_vip uid now db =
     db\<lparr>users :=
          map (\<lambda>u. if telegram_id u = uid
                    then u\<lparr>is_vip := True, user_updated_at := now\<rparr>
                    else u) (users db)\<rparr>"

definition update_user_vip_stmt ::
  "bool \<Rightarrow> database \<Rightarrow> string \<Rightarrow> int \<Rightarrow> db_error + (nat \<times> database)" where
  "update_user_vip_stmt raises db now uid =
     (if raises then Inl OperationalError
      else Inr (length (filter (\<lambda>u. telegram_id u = uid) (users db)),
                set_user_vip uid now db))"

text \<open>
  \<^verbatim>\<open>update_transaction_status\<close>. \<open>fail k\<close> says whether the \<open>k\<close>-th database call
  of this invocation raises; \<open>now\<close> is \<^verbatim>\<open>datetime.now().isoformat()\<close>. Every
  exception is caught by the function and turned into the result \<open>False\<close>; what
  earlier calls committed stays committed.
\<close>

definition update_transaction_status ::
  "(nat \<Rightarrow> bool) \<Rightarrow> string \<Rightarrow> database \<Rightarrow> string \<Rightarrow> string \<Rightarrow> bool \<times> database" where
  "update_transaction_status fail now db txid st =
     (case update_tx_status_stmt (fail 0) db st now txid of
        Inl e \<Rightarrow> (False, db)
      | Inr (row_count, db1) \<Rightarrow>
          if row_count = 0 then (False, db1)
          else if st = ''completed'' then
            (case select_user_id_stmt (fail 1) db1 txid of
               Inl e \<Rightarrow> (False, db1)
             | Inr user_result \<Rightarrow>
                 (case user_result of
                    [] \<Rightarrow> (True, db1)
                  | uid # rest \<Rightarrow>
                      (case update_user_vip_stmt (fail 2) db1 now uid of
                         Inl e \<Rightarrow> (False, db1)
                       | Inr (n, db2) \<Rightarrow> (True, db2))))
          else (True, db1))"


text \<open>Two schedules of storage failures: none, and one at the \<open>n\<close>-th database call.\<close>

definition no_fault :: "nat \<Rightarrow> bool" where
  "no_fault k = False"


text \<open>Reading one transaction and one user back.\<close>

definition find_tx :: "database \<Rightarrow> string \<Rightarrow> tx_row option" where
  "find_tx db txid = find (\<lambda>r. tx_id r = txid) (transactions db)"

definition find_user :: "database \<Rightarrow> int \<Rightarrow> user_row option" where
  "find_user db uid = find (\<lambda>u. telegram_id u = uid) (users db)"

text \<open>
  \<^verbatim>\<open>INSERT INTO transactions (tx_id, user_id, amount, method, metadata, status,
  timestamp, created_at) VALUES (...)\<close>. The primary key refuses a second row with the
  same \<open>tx_id\<close>; a NaN is bound as NULL, which \<^verbatim>\<open>amount REAL NOT NULL\<close> refuses.
\<close>

definition insert_tx_stmt ::
  "bool \<Rightarrow> database \<Rightarrow> validated_data \<Rightarrow> string \<Rightarrow> db_error + database" where
  "insert_tx_stmt raises db v now =
     (if raises then Inl OperationalError
      else if \<not> set [''tx_id'', ''user_id'', ''amount'', ''method'', ''metadata'', ''status'',
                      ''timestamp'', ''created_at''] \<subseteq> set (tx_columns db)
        then Inl OperationalError
      else if v_amount v = NaN then Inl IntegrityError
      else if v_tx_id v \<in> tx_id ` set (transactions db) then Inl IntegrityError
      else Inr (db\<lparr>transactions := transactions db @
                  [\<lparr>tx_id = v_tx_id v, user_id = v_user_id v, amount = v_amount v,
                    tx_method = v_method v, metadata = v_metadata v, status = ''pending'',
                    timestamp = now, processed_at = None, created_at = now,
                    updated_at = None\<rparr>]\<rparr>))"

text \<open>\<^verbatim>\<open>create_transaction\<close>; \<open>raises\<close> is a storage failure of its one database call.\<close>

definition create_transaction ::
  "bool \<Rightarrow> string \<Rightarrow> database \<Rightarrow> pyval \<Rightarrow> pyval \<Rightarrow> pyval \<Rightarrow> pyval \<Rightarrow> metadata_arg
   \<Rightarrow> bool \<times> database" where
  "create_transaction raises now db txid uid amt meth meta =
     (case validate_transaction_input txid uid amt meth meta of
        None \<Rightarrow> (False, db)
      | Some v \<Rightarrow>
          (case insert_tx_stmt raises db v now of
             Inl e \<Rightarrow> (False, db)
           | Inr db' \<Rightarrow> (True, db')))"

text \<open>
  \<^verbatim>\<open>add_user\<close>: a new row with \<open>is_vip = 0\<close>, or the interaction time of the
  existing one. \<open>db_now\<close> is SQLite's \<^verbatim>\<open>CURRENT_TIMESTAMP\<close>, the default of
  \<open>created_at\<close>.
\<close>

definition add_user :: "(nat \<Rightarrow> bool) \<Rightarrow> string \<Rightarrow> string \<Rightarrow> database \<Rightarrow> int \<Rightarrow> bool \<times> database" where
  "add_user fail now db_now db uid =
     (if fail 0 then (False, db)
      else if filter (\<lambda>u. telegram_id u = uid) (users db) = [] then
        (if fail 1 then (False, db)
         else (True, db\<lparr>users := users db @
                 [\<lparr>telegram_id = uid, join_date = now, last_interaction = now, is_vip = False,
                   user_created_at = db_now, user_updated_at = now\<rparr>]\<rparr>))
      else
        (if fail 1 then (False, db)
         else (True, db\<lparr>users :=
                 map (\<lambda>u. if telegram_id u = uid
                           then u\<lparr>last_interaction := now, user_updated_at := now\<rparr>
                           else u) (users db)\<rparr>)))"

subsection \<open>The states of the ledger\<close>

text \<open>
  The databases the functions of \<^verbatim>\<open>database.py\<close> produce, starting from
  \<^verbatim>\<open>init_db\<close> on a new file, with any arguments, clock readings and storage failures.
\<close>

inductive reachable :: "database \<Rightarrow> bool" where
  reachable_init: "reachable init_db"
| reachable_add_user:
    "reachable db \<Longrightarrow> reachable (snd (add_user fail now db_now db uid))"
| reachable_create:
    "reachable db \<Longrightarrow> reachable (snd (create_transaction raises now db txid uid amt meth meta))"
| reachable_update:
    "reachable db \<Longrightarrow> reachable (snd (update_transaction_status fail now db txid st))"

subsection \<open>A small ledger\<close>

text \<open>
  User 42 and the transaction \<open>order_1\<close>, as \<^verbatim>\<open>add_user(42)\<close> and
  \<^verbatim>\<open>create_transaction("order_1", 42, 10.0, "OxaPay", "m")\<close> store them at time
  \<open>t0\<close> in the database of \<^verbatim>\<open>init_db\<close>.
\<close>

definition user42 :: user_row where
  "user42 = \<lparr>telegram_id = 42, join_date = ''t0'', last_interaction = ''t0'',
             is_vip = False, user_created_at = ''t0'', user_updated_at = ''t0''\<rparr>"

definition order_1 :: tx_row where
  "order_1 = \<lparr>tx_id = ''order_1'', user_id = 42, amount = Fin 10, tx_method = ''OxaPay'',
              metadata = ''m'', status = ''pending'', timestamp = ''t0'', processed_at = None,
              created_at = ''t0'', updated_at = None\<rparr>"

definition ledger_no_tx :: database where
  "ledger_no_tx = \<lparr>users = [user42], tx_columns = init_columns, transactions = []\<rparr>"

definition ledger_pending :: database where
  "ledger_pending = \<lparr>users = [user42], tx_columns = init_columns, transactions = [order_1]\<rparr>"

section \<open>The payment gateway client (payments.py)\<close>

subsection \<open>The shared HTTP-request helper\<close>

text \<open>
  What one call of \<^verbatim>\<open>session.request\<close> does: it raises, or a response arrives with a
  status code and a body, which \<^verbatim>\<open>response.json()\<close> parses (\<open>None\<close>: the body is not
  valid JSON). The remote side is an input of the model: \<open>net k\<close> is the outcome of the
  request of attempt \<open>k\<close>.
\<close>

datatype http_outcome =
    RaisesTimeout
  | RaisesConnectionError
  | RaisesRequestException
  | RaisesOther
  | Response nat "json option"

text \<open>\<^verbatim>\<open>response.raise_for_status()\<close> raises \<^verbatim>\<open>HTTPError\<close>, a
  \<^verbatim>\<open>RequestException\<close>, for the 4xx and 5xx codes.\<close>

definition raise_for_status :: "nat \<Rightarrow> bool" where
  "raise_for_status code = (400 \<le> code \<and> code < 600)"

text \<open>What the helper does to the outside: it sleeps and it sends requests.\<close>

datatype net_event = Sleep nat | Request nat | StripeRequest

text \<open>
  The loop \<^verbatim>\<open>for attempt in range(self.max_retries + 1)\<close>; the third argument counts
  the iterations that remain. Each handler returns \<^verbatim>\<open>None\<close> on the last attempt and
  falls through to the next iteration otherwise.
\<close>

fun make_request_loop ::
  "nat \<Rightarrow> (nat \<Rightarrow> http_outcome) \<Rightarrow> nat \<Rightarrow> nat \<Rightarrow> json option \<times> net_event list" where
  "make_request_loop max_retries net 0 attempt = (None, [])"
| "make_request_loop max_retries net (Suc remaining) attempt =
     (let events = (if attempt > 0 then [Sleep (2 ^ attempt)] else []) @ [Request attempt];
          next_attempt =
            (if attempt = max_retries then (None, events)
             else (let (r, later) = make_request_loop max_retries net remaining (Suc attempt)
                   in (r, events @ later)))
      in case net attempt of
           Response code body \<Rightarrow>
             if raise_for_status code then next_attempt else (body, events)
         | RaisesTimeout \<Rightarrow> next_attempt
         | RaisesConnectionError \<Rightarrow> next_attempt
         | RaisesRequestException \<Rightarrow> next_attempt
         | RaisesOther \<Rightarrow> next_attempt)"

definition make_request :: "nat \<Rightarrow> (nat \<Rightarrow> http_outcome) \<Rightarrow> json option \<times> net_event list" where
  "make_request max_retries net = make_request_loop max_retries net (max_retries + 1) 0"

text \<open>
  The helper in the words of its description: the attempts run until the first one
  whose response arrives with a status that \<^verbatim>\<open>raise_for_status\<close> lets through.
\<close>

definition passes :: "http_outcome \<Rightarrow> bool" where
  "passes out = (case out of Response code body \<Rightarrow> \<not> raise_for_status code | _ \<Rightarrow> False)"

definition body_of :: "http_outcome \<Rightarrow> json option" where
  "body_of out = (case out of Response code body \<Rightarrow> body | _ \<Rightarrow> None)"

definition attempt_events :: "nat \<Rightarrow> net_event list" where
  "attempt_events k = (if k > 0 then [Sleep (2 ^ k)] else []) @ [Request k]"

definition make_request_spec ::
  "nat \<Rightarrow> (nat \<Rightarrow> http_outcome) \<Rightarrow> json option \<times> net_event list" where
  "make_request_spec max_retries net =
     (case find (\<lambda>k. passes (net k)) [0..<max_retries + 1] of
        None \<Rightarrow> (None, concat (map attempt_events [0..<max_retries + 1]))
      | Some i \<Rightarrow> (body_of (net i), concat (map attempt_events [0..<i + 1])))"

definition requests :: "net_event list \<Rightarrow> nat list" where
  "requests es = concat (map (\<lambda>e. case e of Request k \<Rightarrow> [k] | _ \<Rightarrow> []) es)"

subsection \<open>Configuration\<close>

text \<open>The module-level settings read with \<^verbatim>\<open>os.getenv\<close>, and whether the
  \<^verbatim>\<open>stripe\<close> library could be imported.\<close>

record config =
  OXAPAY_API_KEY :: "string option"
  CRYPTOMUS_API_KEY :: "string option"
  CRYPTOMUS_MERCHANT_ID :: "string option"
  NOWPAYMENTS_API_KEY :: "string option"
  STRIPE_SECRET_KEY :: "string option"
  USDT_WALLET_ADDRESS :: "string option"
  RETURN_URL_BASE :: string
  stripe_imported :: bool

text \<open>\<^verbatim>\<open>not KEY\<close> for an optional string.\<close>

definition unset :: "string option \<Rightarrow> bool" where
  "unset k = (k = None \<or> k = Some [])"

subsection \<open>urlencode\<close>

definition unreserved :: "char \<Rightarrow> bool" where
  "unreserved c =
     (let n = (of_char c :: nat)
      in (65 \<le> n \<and> n \<le> 90) \<or> (97 \<le> n \<and> n \<le> 122) \<or> (48 \<le> n \<and> n \<le> 57)
         \<or> c \<in> set [CHR ''_'', CHR ''.'', CHR ''-'', CHR ''~''])"

definition utf8 :: "char \<Rightarrow> nat list" where
  "utf8 c = (let n = (of_char c :: nat)
             in if n < 128 then [n] else [192 + n div 64, 128 + n mod 64])"

definition upper_hex :: "nat \<Rightarrow> char" where
  "upper_hex n = (if n < 10 then char_of (48 + n) else char_of (55 + n))"

definition percent :: "nat \<Rightarrow> string" where
  "percent b = [CHR ''%'', upper_hex (b div 16), upper_hex (b mod 16)]"

definition quote_plus_char :: "char \<Rightarrow> string" where
  "quote_plus_char c =
     (if unreserved c then [c] else if c = CHR '' '' then ''+''
      else concat (map percent (utf8 c)))"

definition quote_plus :: "string \<Rightarrow> string" where
  "quote_plus s = concat (map quote_plus_char s)"

definition urlencode :: "(string \<times> string) list \<Rightarrow> string" where
  "urlencode params = join ''&'' (map (\<lambda>kv. quote_plus (fst kv) @ ''='' @ quote_plus (snd kv)) params)"

text \<open>\<^verbatim>\<open>str(v)\<close> of an optional string, as \<^verbatim>\<open>urlencode\<close> applies it to a value.\<close>

definition str_opt :: "string option \<Rightarrow> string" where
  "str_opt v = (case v of None \<Rightarrow> ''None'' | Some s \<Rightarrow> s)"

subsection \<open>Transak\<close>

record transak_link =
  ok :: bool
  pay_url :: string
  link_order_id :: string
  link_amount :: pyfloat
  link_currency :: string

text \<open>
  \<^verbatim>\<open>Transak.create_payment_link\<close> with its default arguments and the default API key of
  the constructor. \<open>float_str\<close> is \<^verbatim>\<open>str\<close> on floats and \<open>now\<close> is
  \<^verbatim>\<open>int(time.time())\<close>. Nothing in the body of the \<^verbatim>\<open>try\<close> raises for these
  arguments. The function takes no network oracle: it sends nothing.
\<close>

definition transak_params :: "(pyfloat \<Rightarrow> string) \<Rightarrow> config \<Rightarrow> pyfloat \<Rightarrow> (string \<times> string) list" where
  "transak_params float_str cfg amt =
     [(''apiKey'', ''4fcd6904-706b-4e0e-9764-159cc4142646''),
      (''defaultCryptoCurrency'', ''USDT''),
      (''defaultNetwork'', ''tron''),
      (''defaultFiatAmount'', float_str amt),
      (''defaultFiatCurrency'', ''USD''),
      (''walletAddress'', str_opt (USDT_WALLET_ADDRESS cfg)),
      (''redirectURL'', RETURN_URL_BASE cfg),
      (''disableWalletAddressForm'', ''true''),
      (''hideMenu'', ''true''),
      (''exchangeScreenTitle'', ''Pagar VIP V-Strike''),
      (''cryptoCurrencyList'', ''USDT''),
      (''networks'', ''tron'')]"

definition create_payment_link :: "(pyfloat \<Rightarrow> string) \<Rightarrow> int \<Rightarrow> config \<Rightarrow> pyfloat \<Rightarrow> transak_link" where
  "create_payment_link float_str now cfg amt =
     \<lparr>ok = True,
      pay_url = ''https://global.transak.com'' @ ''?'' @ urlencode (transak_params float_str cfg amt),
      link_order_id = ''transak_'' @ str_int now,
      link_amount = amt,
      link_currency = ''USD''\<rparr>"

subsection \<open>The gateways that call out\<close>

datatype py_error = AttributeError | TypeError

text \<open>\<^verbatim>\<open>if response:\<close> and \<^verbatim>\<open>response.get(key)\<close>, where a missing key and a JSON
  null both give \<^verbatim>\<open>None\<close>.\<close>

fun json_truthy :: "json \<Rightarrow> bool" where
  "json_truthy JNull = False"
| "json_truthy (JBool b) = b"
| "json_truthy (JInt i) = (i \<noteq> 0)"
| "json_truthy (JStr s) = (s \<noteq> [])"
| "json_truthy (JArr xs) = (xs \<noteq> [])"
| "json_truthy (JObj kvs) = (kvs \<noteq> [])"

definition dict_get :: "(string \<times> json) list \<Rightarrow> string \<Rightarrow> json" where
  "dict_get d k = (case map_of d k of None \<Rightarrow> JNull | Some v \<Rightarrow> v)"

text \<open>
  \<^verbatim>\<open>OxaPay.create_payment\<close>. A response that is no dict has no \<^verbatim>\<open>get\<close>: the
  \<^verbatim>\<open>AttributeError\<close> leaves the method.
\<close>

definition oxapay_create_payment ::
  "config \<Rightarrow> (nat \<Rightarrow> http_outcome) \<Rightarrow> pyfloat \<Rightarrow> (py_error + (string \<times> json) list option) \<times> net_event list" where
  "oxapay_create_payment cfg net amt =
     (if unset (OXAPAY_API_KEY cfg) then (Inr None, [])
      else if float_le amt 0 then (Inr None, [])
      else (let (response, events) = make_request 3 net
            in case response of
                 None \<Rightarrow> (Inr None, events)
               | Some r \<Rightarrow>
                   if \<not> json_truthy r then (Inr None, events)
                   else (case r of
                           JObj d \<Rightarrow>
                             if dict_get d ''result'' = JInt 100
                             then (Inr (Some [(''trackId'', dict_get d ''trackId''),
                                              (''payLink'', dict_get d ''payLink''),
                                              (''amount'', dict_get d ''amount''),
                                              (''currency'', dict_get d ''currency'')]), events)
                             else (Inr None, events)
                         | _ \<Rightarrow> (Inl AttributeError, events))))"

text \<open>
  \<^verbatim>\<open>Cryptomus.create_payment\<close>. \<^verbatim>\<open>_sign_request\<close> returns the empty string only
  without an API key, which the first check has excluded; the signature goes into the
  request headers. \<^verbatim>\<open>response.get("state") == 0\<close> also holds for a JSON
  \<^verbatim>\<open>false\<close>.
\<close>

definition cryptomus_create_payment ::
  "config \<Rightarrow> (nat \<Rightarrow> http_outcome) \<Rightarrow> pyfloat \<Rightarrow> (py_error + (string \<times> json) list option) \<times> net_event list" where
  "cryptomus_create_payment cfg net amt =
     (if unset (CRYPTOMUS_API_KEY cfg) \<or> unset (CRYPTOMUS_MERCHANT_ID cfg) then (Inr None, [])
      else if float_le amt 0 then (Inr None, [])
      else (let (response, events) = make_request 3 net
            in case response of
                 None \<Rightarrow> (Inr None, events)
               | Some r \<Rightarrow>
                   if \<not> json_truthy r then (Inr None, events)
                   else (case r of
                           JObj d \<Rightarrow>
                             if (dict_get d ''state'' = JInt 0 \<or> dict_get d ''state'' = JBool False)
                                \<and> map_of d ''result'' \<noteq> None
                             then (case dict_get d ''result'' of
                                     JObj res \<Rightarrow>
                                       (Inr (Some [(''uuid'', dict_get res ''uuid''),
                                                   (''url'', dict_get res ''url''),
                                                   (''amount'', dict_get res ''amount''),
                                                   (''currency'', dict_get res ''currency'')]), events)
                                   | _ \<Rightarrow> (Inl AttributeError, events))
                             else (Inr None, events)
                         | _ \<Rightarrow> (Inl AttributeError, events))))"

text \<open>
  \<^verbatim>\<open>NOWPayments.create_payment\<close>. \<^verbatim>\<open>"invoice_url" in response\<close> is a key test on a
  dict, a substring test on a string, a membership test on a list, and a
  \<^verbatim>\<open>TypeError\<close> on a number or \<^verbatim>\<open>True\<close>.
\<close>

definition nowpayments_create_payment ::
  "config \<Rightarrow> (nat \<Rightarrow> http_outcome) \<Rightarrow> pyfloat \<Rightarrow> (py_error + (string \<times> json) list option) \<times> net_event list" where
  "nowpayments_create_payment cfg net amt =
     (if unset (NOWPAYMENTS_API_KEY cfg) then (Inr None, [])
      else if float_le amt 0 then (Inr None, [])
      else (let (response, events) = make_request 3 net
            in case response of
                 None \<Rightarrow> (Inr None, events)
               | Some r \<Rightarrow>
                   if \<not> json_truthy r then (Inr None, events)
                   else (case r of
                           JObj d \<Rightarrow>
                             if map_of d ''invoice_url'' \<noteq> None
                             then (Inr (Some [(''id'', dict_get d ''id''),
                                              (''invoice_url'', dict_get d ''invoice_url''),
                                              (''price_amount'', dict_get d ''price_amount''),
                                              (''price_currency'', dict_get d ''price_currency'')]), events)
                             else (Inr None, events)
                         | JStr s \<Rightarrow>
                             if sublist ''invoice_url'' s then (Inl AttributeError, events)
                             else (Inr None, events)
                         | JArr xs \<Rightarrow>
                             if JStr ''invoice_url'' \<in> set xs then (Inl AttributeError, events)
                             else (Inr None, events)
                         | _ \<Rightarrow> (Inl TypeError, events))))"

subsection \<open>generate_payment_link\<close>

datatype link =
    TransakLink transak_link
  | DictLink "(string \<times> json) list"
  | StripeLink string string pyfloat string

text \<open>
  \<^verbatim>\<open>StripePayment.create_payment\<close> hands the work to the \<^verbatim>\<open>stripe\<close> library:
  \<open>stripe_session\<close> is the id and the URL of the session it creates, or \<open>None\<close> when
  the library raises.
\<close>

definition stripe_create_payment ::
  "config \<Rightarrow> (string \<times> string) option \<Rightarrow> pyfloat \<Rightarrow> link option \<times> net_event list" where
  "stripe_create_payment cfg stripe_session amt =
     (if \<not> stripe_imported cfg then (None, [])
      else if unset (STRIPE_SECRET_KEY cfg) then (None, [])
      else if amt \<in> {NaN, PosInf, NegInf} then (None, [])
      else (case stripe_session of
              None \<Rightarrow> (None, [StripeRequest])
            | Some (sid, url) \<Rightarrow> (Some (StripeLink sid url amt ''USD''), [StripeRequest])))"

definition gateway_result ::
  "(py_error + (string \<times> json) list option) \<times> net_event list \<Rightarrow> link option \<times> net_event list" where
  "gateway_result r =
     (case fst r of
        Inl e \<Rightarrow> (None, snd r)
      | Inr None \<Rightarrow> (None, snd r)
      | Inr (Some d) \<Rightarrow> (Some (DictLink d), snd r))"

text \<open>
  \<^verbatim>\<open>generate_payment_link(method, amount, order_id, user_id)\<close> with arguments of the
  declared types. The result comes with the events the call caused on the network.
\<close>

definition generate_payment_link ::
  "(pyfloat \<Rightarrow> string) \<Rightarrow> int \<Rightarrow> config \<Rightarrow> (nat \<Rightarrow> http_outcome) \<Rightarrow> (string \<times> string) option
   \<Rightarrow> string \<Rightarrow> pyfloat \<Rightarrow> string \<Rightarrow> int \<Rightarrow> link option \<times> net_event list" where
  "generate_payment_link float_str now cfg net stripe_session meth amt order_id uid =
     (if meth = [] \<or> \<not> truthy (PFloat amt) \<or> order_id = [] \<or> uid = 0 then (None, [])
      else if float_le amt 0 then (None, [])
      else if meth = ''Transak'' then
        (if unset (USDT_WALLET_ADDRESS cfg) then (None, [])
         else (Some (TransakLink (create_payment_link float_str now cfg amt)), []))
      else if meth \<notin> set [''OxaPay'', ''Cryptomus'', ''NOWPayments'', ''Stripe''] then (None, [])
      else if meth = ''OxaPay'' then
        (if unset (OXAPAY_API_KEY cfg)
         then (Some (DictLink [(''trackId'', JStr order_id),
                               (''payLink'', JStr (''https://oxapay.com/pay/'' @ order_id @ '' (MOCK)''))]), [])
         else gateway_result (oxapay_create_payment cfg net amt))
      else if meth = ''Cryptomus'' then
        (if unset (CRYPTOMUS_API_KEY cfg)
         then (Some (DictLink [(''uuid'', JStr order_id),
                               (''url'', JStr (''https://cryptomus.com/pay/'' @ order_id @ '' (MOCK)''))]), [])
         else gateway_result (cryptomus_create_payment cfg net amt))
      else if meth = ''NOWPayments'' then
        (if unset (NOWPAYMENTS_API_KEY cfg)
         then (Some (DictLink [(''id'', JStr order_id),
                               (''invoice_url'', JStr (''https://nowpayments.io/payment/'' @ order_id @ '' (MOCK)''))]), [])
         else gateway_result (nowpayments_create_payment cfg net amt))
      else
        (if unset (STRIPE_SECRET_KEY cfg)
         then (Some (DictLink [(''id'', JStr ''mock_sess''),
                               (''url'', JStr ''https://stripe.com/docs/testing (MOCK)'')]), [])
         else stripe_create_payment cfg stripe_session amt))"

section \<open>The notification bridge (bridge.py)\<close>

text \<open>
  \<^verbatim>\<open>queue.Queue(maxsize)\<close>: a \<open>maxsize\<close> of zero means no bound. \<^verbatim>\<open>put(item)\<close> with
  its defaults \<^verbatim>\<open>block=True, timeout=None\<close> waits for a free slot when the queue is
  full, and never raises \<^verbatim>\<open>queue.Full\<close>.
\<close>

record notification =
  n_type :: string
  n_order_id :: string
  n_user_id :: int
  n_message :: string
  n_admin_id :: "int option"

record py_queue =
  maxsize :: nat
  items :: "notification list"

definition full :: "py_queue \<Rightarrow> bool" where
  "full q = (0 < maxsize q \<and> maxsize q \<le> length (items q))"

datatype put_outcome = Stored py_queue | Blocks

definition put :: "py_queue \<Rightarrow> notification \<Rightarrow> put_outcome" where
  "put q item = (if full q then Blocks else Stored (q\<lparr>items := items q @ [item]\<rparr>))"

text \<open>\<^verbatim>\<open>_sync_queue = queue.Queue()\<close>\<close>

definition sync_queue :: py_queue where
  "sync_queue = \<lparr>maxsize = 0, items = []\<rparr>"

text \<open>
  \<^verbatim>\<open>send_payment_notification\<close> on the state of \<^verbatim>\<open>_sync_queue\<close>: it returns a bool
  and the queue, or it does not return while \<^verbatim>\<open>put\<close> waits.
\<close>

datatype send_outcome = Returns bool py_queue | Waits

definition send_payment_notification ::
  "py_queue \<Rightarrow> string \<Rightarrow> int \<Rightarrow> string \<Rightarrow> int option \<Rightarrow> send_outcome" where
  "send_payment_notification q order_id uid message admin_id =
     (case put q \<lparr>n_type = ''payment_notification'', n_order_id = order_id, n_user_id = uid,
                  n_message = message, n_admin_id = admin_id\<rparr> of
        Stored q' \<Rightarrow> Returns True q'
      | Blocks \<Rightarrow> Waits)"

section \<open>The webhook signature verifier (webhook_validator.py)\<close>

text \<open>
  \<^verbatim>\<open>hmac.compare_digest\<close> on two strings: a \<^verbatim>\<open>TypeError\<close> unless both are ASCII;
  otherwise the differences of all positions are accumulated, without a stop at the
  first one.
\<close>

definition is_ascii :: "string \<Rightarrow> bool" where
  "is_ascii s = list_all (\<lambda>c. (of_char c :: nat) < 128) s"

definition accumulate_diff :: "string \<Rightarrow> string \<Rightarrow> bool" where
  "accumulate_diff a b = fold (\<lambda>xy acc. acc \<or> fst xy \<noteq> snd xy) (zip a b) (length a \<noteq> length b)"

definition compare_digest :: "string \<Rightarrow> string \<Rightarrow> py_error + bool" where
  "compare_digest a b =
     (if \<not> (is_ascii a \<and> is_ascii b) then Inl TypeError else Inr (\<not> accumulate_diff a b))"

text \<open>\<^verbatim>\<open>str.encode()\<close> and \<^verbatim>\<open>hexdigest()\<close>.\<close>

definition encode :: "string \<Rightarrow> nat list" where
  "encode s = concat (map utf8 s)"

definition hexdigest :: "nat list \<Rightarrow> string" where
  "hexdigest bs = concat (map (\<lambda>b. [hex_digit (b div 16 mod 16), hex_digit (b mod 16)]) bs)"

text \<open>
  \<^verbatim>\<open>WebhookValidator.verify_oxapay\<close>. The keyed hash of the standard library,
  \<^verbatim>\<open>hmac.new(key, msg, hashlib.sha256).digest()\<close>, is the parameter \<open>hmac_sha256\<close>, from
  the key bytes and the message bytes to the digest bytes.
\<close>

definition verify_oxapay ::
  "(nat list \<Rightarrow> nat list \<Rightarrow> nat list) \<Rightarrow> string \<Rightarrow> string option \<Rightarrow> string \<Rightarrow> bool" where
  "verify_oxapay hmac_sha256 payload signature api_key =
     (case signature of
        None \<Rightarrow> False
      | Some sg \<Rightarrow>
          if sg = [] \<or> api_key = [] then False
          else (let expected_signature = hexdigest (hmac_sha256 (encode api_key) (encode payload))
                in case compare_digest expected_signature sg of
                     Inl e \<Rightarrow> False
                   | Inr b \<Rightarrow> b))"

subsection \<open>Two remote sides\<close>

text \<open>A server that answers the first request with status 500 and every later one
  with 200 and an empty JSON object, and a server that never answers in time.\<close>

definition error_then_ok :: "nat \<Rightarrow> http_outcome" where
  "error_then_ok k = (if k = 0 then Response 500 None else Response 200 (Some (JObj [])))"

definition always_timeout :: "nat \<Rightarrow> http_outcome" where
  "always_timeout k = RaisesTimeout"

text \<open>A configuration with nothing set but the receiving wallet.\<close>

definition wallet_config :: "string option \<Rightarrow> config" where
  "wallet_config w =
     \<lparr>OXAPAY_API_KEY = None, CRYPTOMUS_API_KEY = None, CRYPTOMUS_MERCHANT_ID = None,
      NOWPAYMENTS_API_KEY = None, STRIPE_SECRET_KEY = None, USDT_WALLET_ADDRESS = w,
      RETURN_URL_BASE = ''https://t.me/YourBotName'', stripe_imported = False\<rparr>"

text \<open>\<^verbatim>\<open>str\<close> on the one float the examples use.\<close>

definition str_ten :: "pyfloat \<Rightarrow> string" where
  "str_ten f = ''10.0''"

subsection \<open>Example inputs of the bridge and the verifier\<close>

text \<open>The notification of \<open>order_1\<close>, and the module's queue holding \<open>n\<close> of them.\<close>

definition paid :: notification where
  "paid = \<lparr>n_type = ''payment_notification'', n_order_id = ''order_1'', n_user_id = 42,
           n_message = ''m'', n_admin_id = None\<rparr>"

definition queued :: "nat \<Rightarrow> py_queue" where
  "queued n = \<lparr>maxsize = 0, items = replicate n paid\<rparr>"

text \<open>A keyed function to run the verifier on: the key bytes followed by the message
  bytes. It stands in for the parameter; it is not HMAC.\<close>

definition concat_mac :: "nat list \<Rightarrow> nat list \<Rightarrow> nat list" where
  "concat_mac key msg = key @ msg"

section \<open>Properties of the ledger\<close>

subsection \<open>The statement that sets the status\<close>

text \<open>
  The \<^verbatim>\<open>UPDATE\<close> of \<^verbatim>\<open>update_transaction_status\<close> assigns \<open>updated_at\<close>, a column of
  \<^verbatim>\<open>users\<close> that \<^verbatim>\<open>transactions\<close> does not have. On a table without it the statement
  is refused, whatever the row, and the function reports \<open>False\<close> without a write.
\<close>

lemma update_status_without_column:
  assumes "''updated_at'' \<notin> set (tx_columns db)"
  shows "update_transaction_status fail now db txid st = (False, db)"
  using assms
  by (simp add: update_transaction_status_def update_tx_status_stmt_def has_update_columns_def)

lemma init_columns_without_updated_at: "''updated_at'' \<notin> set init_columns"
  by (simp add: init_columns_def)

subsection \<open>What holds in every state of the ledger\<close>

lemma add_user_keeps:
  assumes "tx_columns db = init_columns"
    and "\<forall>r \<in> set (transactions db). status r = ''pending'' \<and> processed_at r = None"
    and "\<forall>u \<in> set (users db). \<not> is_vip u"
  shows "tx_columns (snd (add_user fail now db_now db uid)) = init_columns
       \<and> (\<forall>r \<in> set (transactions (snd (add_user fail now db_now db uid))).
             status r = ''pending'' \<and> processed_at r = None)
       \<and> (\<forall>u \<in> set (users (snd (add_user fail now db_now db uid))). \<not> is_vip u)"
  using assms by (auto simp add: add_user_def)

lemma create_transaction_keeps:
  assumes "tx_columns db = init_columns"
    and "\<forall>r \<in> set (transactions db). status r = ''pending'' \<and> processed_at r = None"
    and "\<forall>u \<in> set (users db). \<not> is_vip u"
  shows "tx_columns (snd (create_transaction raises now db txid uid amt meth meta)) = init_columns
       \<and> (\<forall>r \<in> set (transactions (snd (create_transaction raises now db txid uid amt meth meta))).
             status r = ''pending'' \<and> processed_at r = None)
       \<and> (\<forall>u \<in> set (users (snd (create_transaction raises now db txid uid amt meth meta))). \<not> is_vip u)"
proof (cases "validate_transaction_input txid uid amt meth meta")
  case None
  then show ?thesis using assms by (simp add: create_transaction_def)
next
  case (Some v)
  show ?thesis
  proof (cases "insert_tx_stmt raises db v now")
    case (Inl e)
    then show ?thesis using assms Some by (simp add: create_transaction_def)
  next
    case (Inr db')
    then have "db' = db\<lparr>transactions := transactions db @
                  [\<lparr>tx_id = v_tx_id v, user_id = v_user_id v, amount = v_amount v,
                    tx_method = v_method v, metadata = v_metadata v, status = ''pending'',
                    timestamp = now, processed_at = None, created_at = now,
                    updated_at = None\<rparr>]\<rparr>"
      by (simp add: insert_tx_stmt_def split: if_splits)
    then show ?thesis using assms Some Inr by (simp add: create_transaction_def)
  qed
qed

lemma reachable_invariant:
  assumes "reachable db"
  shows "tx_columns db = init_columns
       \<and> (\<forall>r \<in> set (transactions db). status r = ''pending'' \<and> processed_at r = None)
       \<and> (\<forall>u \<in> set (users db). \<not> is_vip u)"
  using assms
proof (induction rule: reachable.induct)
  case reachable_init
  then show ?case by (simp add: init_db_def)
next
  case (reachable_add_user db fail now db_now uid)
  then show ?case using add_user_keeps by blast
next
  case (reachable_create db raises now txid uid amt meth meta)
  then show ?case using create_transaction_keeps by blast
next
  case (reachable_update db fail now txid st)
  then have "''updated_at'' \<notin> set (tx_columns db)"
    by (simp add: init_columns_without_updated_at)
  then have "update_transaction_status fail now db txid st = (False, db)"
    by (rule update_status_without_column)
  then show ?case using reachable_update.IH by simp
qed

text \<open>
  So in every state of the ledger a call of \<^verbatim>\<open>update_transaction_status\<close>, for any
  transaction, status and failure of the storage, returns \<open>False\<close> and writes nothing;
  no transaction leaves \<open>pending\<close>, and no user becomes VIP.
\<close>

lemma update_status_reachable:
  assumes "reachable db"
  shows "update_transaction_status fail now db txid st = (False, db)"
proof -
  have "tx_columns db = init_columns" using reachable_invariant [OF assms] by simp
  then have "''updated_at'' \<notin> set (tx_columns db)"
    by (simp add: init_columns_without_updated_at)
  then show ?thesis by (rule update_status_without_column)
qed

subsection \<open>The small ledger\<close>

lemma ledger_no_tx_built:
  "add_user no_fault ''t0'' ''t0'' init_db 42 = (True, ledger_no_tx)"
  by (simp add: add_user_def no_fault_def init_db_def ledger_no_tx_def user42_def)

lemma order_1_validated:
  "validate_transaction_input (PStr ''order_1'') (PInt 42) (PFloat (Fin 10)) (PStr ''OxaPay'')
     (MetaStr ''m'')
   = Some \<lparr>v_tx_id = ''order_1'', v_user_id = 42, v_amount = Fin 10, v_method = ''OxaPay'',
           v_metadata = ''m''\<rparr>"
  by code_simp

lemma ledger_pending_built:
  "create_transaction False ''t0'' ledger_no_tx (PStr ''order_1'') (PInt 42) (PFloat (Fin 10))
     (PStr ''OxaPay'') (MetaStr ''m'') = (True, ledger_pending)"
  by (simp add: create_transaction_def order_1_validated insert_tx_stmt_def ledger_no_tx_def
      ledger_pending_def order_1_def init_columns_def)

lemma reachable_ledger_pending: "reachable ledger_pending"
proof -
  have "reachable (snd (add_user no_fault ''t0'' ''t0'' init_db 42))"
    by (rule reachable_add_user) (rule reachable_init)
  then have "reachable ledger_no_tx" by (simp add: ledger_no_tx_built)
  then have "reachable (snd (create_transaction False ''t0'' ledger_no_tx (PStr ''order_1'')
      (PInt 42) (PFloat (Fin 10)) (PStr ''OxaPay'') (MetaStr ''m'')))"
    by (rule reachable_create)
  then show ?thesis by (simp add: ledger_pending_built)
qed

lemma ledger_pending_rows:
  "find_tx ledger_pending ''order_1'' = Some order_1"
  "find_user ledger_pending 42 = Some user42"
  by (simp_all add: find_tx_def find_user_def ledger_pending_def order_1_def user42_def)

lemma ledger_pending_columns: "''updated_at'' \<notin> set (tx_columns ledger_pending)"
  by (simp add: ledger_pending_def init_columns_def)

subsection \<open>C1: a terminal status is never reached\<close>


subsection \<open>C2: completed, delivered twice\<close>

text \<open>
  C2 says that two deliveries of \<open>completed\<close> make the owner VIP exactly once and fix
  \<open>processed_at\<close> at the first. In the same ledger both deliveries return \<open>False\<close> and
  write nothing: after them user 42 is still not VIP, and \<open>processed_at\<close> of
  \<open>order_1\<close> is still unset.
\<close>

theorem completed_twice_never_vip:
  "update_transaction_status no_fault ''t1'' ledger_pending ''order_1'' ''completed''
     = (False, ledger_pending)
   \<and> update_transaction_status no_fault ''t2''
       (snd (update_transaction_status no_fault ''t1'' ledger_pending ''order_1'' ''completed''))
       ''order_1'' ''completed''
     = (False, ledger_pending)
   \<and> map_option is_vip (find_user ledger_pending 42) = Some False
   \<and> map_option processed_at (find_tx ledger_pending ''order_1'') = Some None
   \<and> map_option status (find_tx ledger_pending ''order_1'') = Some ''pending''"
  by (simp add: update_status_without_column [OF ledger_pending_columns] ledger_pending_rows
      order_1_def user42_def)

subsection \<open>C3: the transition to completed commits nothing\<close>


section \<open>Properties of the payment gateway client\<close>

subsection \<open>The request helper and its description\<close>

lemma find_Some_holds: "find P xs = Some x \<Longrightarrow> P x"
  by (induction xs) (auto split: if_splits)

lemma find_upt_first: "find P [a..<b] = Some i \<Longrightarrow> a \<le> i \<and> i < b"
  by (auto simp add: find_Some_iff)

lemma make_request_loop_spec:
  assumes "a + k = b" and "b = max_retries + 1"
  shows "make_request_loop max_retries net k a =
     (case find (\<lambda>j. passes (net j)) [a..<b] of
        None \<Rightarrow> (None, concat (map attempt_events [a..<b]))
      | Some i \<Rightarrow> (body_of (net i), concat (map attempt_events [a..<Suc i])))"
  using assms
proof (induction k arbitrary: a)
  case 0
  then show ?case by simp
next
  case (Suc k)
  have last: "(a = max_retries) = (k = 0)" using Suc.prems by auto
  have U: "[a..<b] = a # [Suc a..<b]" using Suc.prems by (simp add: upt_conv_Cons)
  have one: "[a..<Suc a] = [a]" by simp
  have ih: "make_request_loop max_retries net k (Suc a) =
     (case find (\<lambda>j. passes (net j)) [Suc a..<b] of
        None \<Rightarrow> (None, concat (map attempt_events [Suc a..<b]))
      | Some i \<Rightarrow> (body_of (net i), concat (map attempt_events [Suc a..<Suc i])))"
    using Suc.IH [of "Suc a"] Suc.prems by simp
  show ?case
  proof (cases "passes (net a)")
    case True
    then obtain code body where r: "net a = Response code body" "\<not> raise_for_status code"
      by (auto simp add: passes_def split: http_outcome.splits)
    have "make_request_loop max_retries net (Suc k) a = (body, attempt_events a)"
      using r by (simp add: attempt_events_def Let_def)
    then show ?thesis
      using True r by (simp only: U find.simps if_True option.case one body_of_def
          http_outcome.case list.map concat.simps append_Nil2)
  next
    case False
    have step: "make_request_loop max_retries net (Suc k) a =
        (if a = max_retries then (None, attempt_events a)
         else (fst (make_request_loop max_retries net k (Suc a)),
               attempt_events a @ snd (make_request_loop max_retries net k (Suc a))))"
      using False
      by (cases "net a") (simp_all add: passes_def attempt_events_def split_beta Let_def)
    have F: "find (\<lambda>j. passes (net j)) [a..<b] = find (\<lambda>j. passes (net j)) [Suc a..<b]"
      using False by (simp only: U find.simps if_False)
    have C: "concat (map attempt_events [a..<b]) = attempt_events a @ concat (map attempt_events [Suc a..<b])"
      by (simp only: U list.map concat.simps)
    show ?thesis
    proof (cases "k = 0")
      case True
      then have E: "[Suc a..<b] = []" using Suc.prems by simp
      have "a = max_retries" using last True by simp
      then show ?thesis
        unfolding step F C E by simp
    next
      case k: False
      show ?thesis
      proof (cases "find (\<lambda>j. passes (net j)) [Suc a..<b]")
        case None
        then show ?thesis
          unfolding step F C using last k ih by (simp del: make_request_loop.simps)
      next
        case (Some i)
        then have "a < i" using find_upt_first [OF Some] by simp
        then have "[a..<Suc i] = a # [Suc a..<Suc i]" by (simp add: upt_conv_Cons del: upt_Suc)
        then have "concat (map attempt_events [a..<Suc i])
                   = attempt_events a @ concat (map attempt_events [Suc a..<Suc i])"
          by (simp only: list.map concat.simps)
        then show ?thesis
          unfolding step F using last k ih Some by (simp del: upt_Suc make_request_loop.simps)
      qed
    qed
  qed
qed

lemma requests_append: "requests (xs @ ys) = requests xs @ requests ys"
  by (simp add: requests_def)

lemma requests_attempt_events: "requests (attempt_events k) = [k]"
  by (simp add: requests_def attempt_events_def)

lemma requests_upto: "requests (concat (map attempt_events [0..<n])) = [0..<n]"
  by (induction n) (simp_all add: requests_append requests_attempt_events, simp add: requests_def)

subsection \<open>C4: which failures are retried\<close>

text \<open>
  C4 says that a response received with a non-2xx status is surfaced at once, without
  a retry. A server that answers the first request with status 500 and the second with
  200 gets both requests: after the 500 the helper sleeps two seconds and sends the
  request again, and it returns the body of the second response.
\<close>

theorem retry_after_error_status_counterexample:
  "make_request 3 error_then_ok = (Some (JObj []), [Request 0, Sleep 2, Request 1])"
  by (simp add: make_request_def error_then_ok_def raise_for_status_def numeral_eq_Suc)

text \<open>
  C4 as the code has it: the helper is the loop of its description. It tries again
  after every attempt that raised, whatever the exception: a timeout, a connection
  failure, any other one, and the \<^verbatim>\<open>HTTPError\<close> of a response received with a 4xx or
  5xx status. It sleeps \<open>2 ^ attempt\<close> seconds before attempt number \<open>attempt > 0\<close>
  and sends at most \<open>max_retries + 1\<close> requests. It stops at the first response whose
  status \<^verbatim>\<open>raise_for_status\<close> lets through and returns its parsed body, which is
  \<^verbatim>\<open>None\<close> for a body that is not JSON; after the last attempt it returns \<^verbatim>\<open>None\<close>.
\<close>

theorem make_request_retries:
  "make_request max_retries net = make_request_spec max_retries net
   \<and> length (requests (snd (make_request max_retries net))) \<le> max_retries + 1
   \<and> (passes (net 0) \<longrightarrow> make_request max_retries net = (body_of (net 0), [Request 0]))
   \<and> (\<not> passes (net 0) \<and> 0 < max_retries \<longrightarrow>
        take 3 (snd (make_request max_retries net)) = [Request 0, Sleep 2, Request 1])"
proof -
  have eq: "make_request max_retries net = make_request_spec max_retries net"
    unfolding make_request_def make_request_spec_def
    by (simp only: make_request_loop_spec [of 0 "max_retries + 1" "max_retries + 1" max_retries net] Suc_eq_plus1)
  have len: "length (requests (snd (make_request_spec max_retries net))) \<le> max_retries + 1"
  proof (cases "find (\<lambda>k. passes (net k)) [0..<max_retries + 1]")
    case None
    then show ?thesis
      using requests_upto [of "max_retries + 1"] by (simp add: make_request_spec_def)
  next
    case (Some i)
    then have "i < max_retries + 1" using find_upt_first [OF Some] by simp
    then show ?thesis
      using Some requests_upto [of "i + 1"] by (simp add: make_request_spec_def)
  qed
  have U: "[0..<max_retries + 1] = 0 # [1..<max_retries + 1]"
    by (simp add: upt_conv_Cons del: upt_Suc)
  have first: "make_request_spec max_retries net = (body_of (net 0), [Request 0])"
    if "passes (net 0)"
    using that unfolding make_request_spec_def U by (simp add: attempt_events_def)
  have second: "take 3 (snd (make_request_spec max_retries net)) = [Request 0, Sleep 2, Request 1]"
    if "\<not> passes (net 0)" "0 < max_retries"
  proof -
    have V: "[0..<max_retries + 1] = 0 # Suc 0 # [Suc (Suc 0)..<max_retries + 1]"
      using that(2) by (simp add: upt_conv_Cons del: upt_Suc)
    show ?thesis
    proof (cases "find (\<lambda>k. passes (net k)) [0..<max_retries + 1]")
      case None
      then have spec: "make_request_spec max_retries net
                       = (None, concat (map attempt_events [0..<max_retries + 1]))"
        by (simp only: make_request_spec_def option.case)
      show ?thesis unfolding spec V by (simp add: attempt_events_def)
    next
      case (Some i)
      then have spec: "make_request_spec max_retries net
                       = (body_of (net i), concat (map attempt_events [0..<i + 1]))"
        by (simp only: make_request_spec_def option.case)
      have "passes (net i)" using find_Some_holds [OF Some] by simp
      then have "i \<noteq> 0" using that(1) by (cases "i = 0") simp_all
      then have W: "[0..<i + 1] = 0 # Suc 0 # [Suc (Suc 0)..<i + 1]"
        by (simp add: upt_conv_Cons del: upt_Suc)
      show ?thesis unfolding spec W by (simp add: attempt_events_def)
    qed
  qed
  show ?thesis using len first second unfolding eq by simp
qed

theorem make_request_retries_witness:
  "passes (error_then_ok 1) \<and> \<not> passes (error_then_ok 0) \<and> \<not> passes (always_timeout 0)
   \<and> take 3 (snd (make_request 3 error_then_ok)) = [Request 0, Sleep 2, Request 1]
   \<and> take 3 (snd (make_request 3 always_timeout)) = [Request 0, Sleep 2, Request 1]
   \<and> length (requests (snd (make_request 3 always_timeout))) \<le> 4"
proof -
  note all = make_request_retries [of 3 always_timeout]
  note retried = make_request_retries [THEN conjunct2, THEN conjunct2, THEN conjunct2]
  have p: "passes (error_then_ok 1)" "\<not> passes (error_then_ok 0)" "\<not> passes (always_timeout 0)"
    by (simp_all add: passes_def error_then_ok_def always_timeout_def raise_for_status_def)
  have a: "take 3 (snd (make_request 3 error_then_ok)) = [Request 0, Sleep 2, Request 1]"
    using retried [of error_then_ok 3] p by simp
  have b: "take 3 (snd (make_request 3 always_timeout)) = [Request 0, Sleep 2, Request 1]"
    using retried [of always_timeout 3] p by simp
  have c: "length (requests (snd (make_request 3 always_timeout))) \<le> 4"
    using all [THEN conjunct2, THEN conjunct1] by simp
  show ?thesis using p a b c by simp
qed

subsection \<open>Substrings of a joined string\<close>

lemma sublist_in_append_right: "sublist x b \<Longrightarrow> sublist x (a @ b)"
  unfolding sublist_def by (metis append.assoc)

lemma sublist_in_append_left: "sublist x a \<Longrightarrow> sublist x (a @ b)"
  unfolding sublist_def by (metis append.assoc)

lemma sublist_join: "x \<in> set xs \<Longrightarrow> sublist x (join sep xs)"
proof (induction sep xs rule: join.induct)
  case (1 sep)
  then show ?case by simp
next
  case (2 sep y)
  then show ?case by simp
next
  case (3 sep y z zs)
  show ?case
  proof (cases "x = y")
    case True
    then show ?thesis by simp
  next
    case False
    then have "sublist x (join sep (z # zs))" using 3 by simp
    then have "sublist x (sep @ join sep (z # zs))" by (rule sublist_in_append_right)
    then have "sublist x (y @ sep @ join sep (z # zs))" by (rule sublist_in_append_right)
    then show ?thesis by simp
  qed
qed

lemma quote_plus_unreserved: "list_all unreserved w \<Longrightarrow> quote_plus w = w"
  by (induction w) (simp_all add: quote_plus_def quote_plus_char_def)

lemma quote_plus_walletAddress: "quote_plus ''walletAddress'' = ''walletAddress''"
  by (rule quote_plus_unreserved) (simp add: unreserved_def)

lemma quote_plus_disable: "quote_plus ''disableWalletAddressForm'' = ''disableWalletAddressForm''"
  by (rule quote_plus_unreserved) (simp add: unreserved_def)

lemma quote_plus_true: "quote_plus ''true'' = ''true''"
  by (rule quote_plus_unreserved) (simp add: unreserved_def)

lemma pay_url_has_param:
  assumes "(k, v) \<in> set (transak_params float_str cfg amt)"
  shows "sublist (quote_plus k @ ''='' @ quote_plus v) (pay_url (create_payment_link float_str now cfg amt))"
proof -
  have "quote_plus k @ ''='' @ quote_plus v
        \<in> set (map (\<lambda>kv. quote_plus (fst kv) @ ''='' @ quote_plus (snd kv))
                 (transak_params float_str cfg amt))"
    using assms by force
  then have "sublist (quote_plus k @ ''='' @ quote_plus v) (urlencode (transak_params float_str cfg amt))"
    unfolding urlencode_def by (rule sublist_join)
  then show ?thesis
    unfolding create_payment_link_def
    by (simp add: sublist_in_append_right del: append.simps)
qed

subsection \<open>C7: the Transak link\<close>

text \<open>
  C7: with the receiving wallet configured, the link of the wallet-address redirect
  provider is built without a network request; its \<open>pay_url\<close> carries the parameter
  \<open>walletAddress\<close> with the configured address as \<^verbatim>\<open>urlencode\<close> writes it (the address
  itself when it consists of letters, digits and \<open>_.-~\<close>) and the parameter
  \<open>disableWalletAddressForm=true\<close>. Without a configured wallet,
  \<^verbatim>\<open>generate_payment_link\<close> returns \<^verbatim>\<open>None\<close> for this method.
\<close>

theorem transak_link_embeds_wallet:
  assumes "USDT_WALLET_ADDRESS cfg = Some w" and "w \<noteq> []"
    and "truthy (PFloat amt)" and "\<not> float_le amt 0" and "order_id \<noteq> []" and "uid \<noteq> 0"
    and "unset (USDT_WALLET_ADDRESS cfg')"
  shows "generate_payment_link float_str now cfg net stripe_session ''Transak'' amt order_id uid
           = (Some (TransakLink (create_payment_link float_str now cfg amt)), [])
       \<and> ok (create_payment_link float_str now cfg amt)
       \<and> sublist (''walletAddress='' @ quote_plus w) (pay_url (create_payment_link float_str now cfg amt))
       \<and> (if list_all unreserved w
           then sublist (''walletAddress='' @ w) (pay_url (create_payment_link float_str now cfg amt))
           else True)
       \<and> sublist ''disableWalletAddressForm=true'' (pay_url (create_payment_link float_str now cfg amt))
       \<and> generate_payment_link float_str now cfg' net stripe_session ''Transak'' amt order_id uid
           = (None, [])"
proof -
  have set_w: "\<not> unset (USDT_WALLET_ADDRESS cfg)" using assms(1,2) by (simp add: unset_def)
  have gen: "generate_payment_link float_str now cfg net stripe_session ''Transak'' amt order_id uid
           = (Some (TransakLink (create_payment_link float_str now cfg amt)), [])"
    using assms(3-6) set_w by (simp add: generate_payment_link_def)
  have none: "generate_payment_link float_str now cfg' net stripe_session ''Transak'' amt order_id uid
           = (None, [])"
    using assms(7) by (simp add: generate_payment_link_def)
  have "(''walletAddress'', w) \<in> set (transak_params float_str cfg amt)"
    using assms(1) by (simp add: transak_params_def str_opt_def)
  from pay_url_has_param [OF this]
  have wallet: "sublist (''walletAddress='' @ quote_plus w)
                  (pay_url (create_payment_link float_str now cfg amt))"
    by (simp add: quote_plus_walletAddress)
  have "(''disableWalletAddressForm'', ''true'') \<in> set (transak_params float_str cfg amt)"
    by (simp add: transak_params_def)
  from pay_url_has_param [OF this]
  have disable: "sublist ''disableWalletAddressForm=true''
                  (pay_url (create_payment_link float_str now cfg amt))"
    by (simp add: quote_plus_disable quote_plus_true)
  have okl: "ok (create_payment_link float_str now cfg amt)"
    by (simp add: create_payment_link_def)
  have plain: "sublist (''walletAddress='' @ w) (pay_url (create_payment_link float_str now cfg amt))"
    if "list_all unreserved w"
    using wallet that by (simp add: quote_plus_unreserved)
  show ?thesis
    using gen none wallet plain disable okl by simp
qed

theorem transak_link_embeds_wallet_witness:
  "USDT_WALLET_ADDRESS (wallet_config (Some ''TTpXeMOCK'')) = Some ''TTpXeMOCK''
   \<and> unset (USDT_WALLET_ADDRESS (wallet_config None))
   \<and> truthy (PFloat (Fin 10)) \<and> \<not> float_le (Fin 10) 0
   \<and> list_all unreserved ''TTpXeMOCK''
   \<and> generate_payment_link str_ten 1700000000 (wallet_config (Some ''TTpXeMOCK'')) always_timeout None
        ''Transak'' (Fin 10) ''order_1'' 42
      = (Some (TransakLink (create_payment_link str_ten 1700000000 (wallet_config (Some ''TTpXeMOCK'')) (Fin 10))), [])
   \<and> sublist ''walletAddress=TTpXeMOCK''
        (pay_url (create_payment_link str_ten 1700000000 (wallet_config (Some ''TTpXeMOCK'')) (Fin 10)))
   \<and> generate_payment_link str_ten 1700000000 (wallet_config None) always_timeout None
        ''Transak'' (Fin 10) ''order_1'' 42 = (None, [])"
proof -
  have h: "USDT_WALLET_ADDRESS (wallet_config (Some ''TTpXeMOCK'')) = Some ''TTpXeMOCK''"
    "unset (USDT_WALLET_ADDRESS (wallet_config None))"
    "truthy (PFloat (Fin 10))" "\<not> float_le (Fin 10) 0" "list_all unreserved ''TTpXeMOCK''"
    by (simp_all add: wallet_config_def unset_def unreserved_def)
  show ?thesis
    using h transak_link_embeds_wallet [of "wallet_config (Some ''TTpXeMOCK'')" "''TTpXeMOCK''"
        "Fin 10" "''order_1''" 42 "wallet_config None" str_ten 1700000000 always_timeout None]
    by simp
qed

subsection \<open>C10: the method name in validation and in link generation\<close>

lemma isspace_lower: "py_isspace c \<Longrightarrow> py_lower_char c = c"
  by (auto simp add: py_isspace_def py_lower_char_def Let_def)

lemma dropWhile_none: "\<forall>x \<in> set xs. \<not> P x \<Longrightarrow> dropWhile P xs = xs"
  by (cases xs) simp_all

lemma no_space_strip:
  assumes "\<forall>c \<in> set s. \<not> py_isspace c"
  shows "py_strip s = s"
proof -
  have a: "dropWhile py_isspace s = s"
    using assms by (rule dropWhile_none)
  have "\<forall>c \<in> set (rev s). \<not> py_isspace c" using assms by simp
  then have "dropWhile py_isspace (rev s) = rev s" by (rule dropWhile_none)
  then show ?thesis by (simp add: py_strip_def a)
qed

lemma lower_no_space_strip:
  assumes "\<forall>c \<in> set (py_lower s). \<not> py_isspace c"
  shows "py_strip s = s"
proof (rule no_space_strip, rule ballI)
  fix c assume c: "c \<in> set s"
  show "\<not> py_isspace c"
  proof
    assume sp: "py_isspace c"
    then have "py_lower_char c = c" by (rule isspace_lower)
    then have "c \<in> set (py_lower s)" using c by (force simp add: py_lower_def)
    then show False using assms sp by blast
  qed
qed

lemma lower_OxaPay: "py_lower ''OxaPay'' = ''oxapay''"
  by code_simp

lemma lower_Cryptomus: "py_lower ''Cryptomus'' = ''cryptomus''"
  by code_simp

lemma lower_NOWPayments: "py_lower ''NOWPayments'' = ''nowpayments''"
  by code_simp

lemma lower_Stars: "py_lower ''Stars'' = ''stars''"
  by code_simp

lemma lower_Transak: "py_lower ''Transak'' = ''transak''"
  by code_simp

lemma lower_Stripe: "py_lower ''Stripe'' = ''stripe''"
  by code_simp

lemmas lower_names = lower_OxaPay lower_Cryptomus lower_NOWPayments lower_Stars
  lower_Transak lower_Stripe

lemma letters_no_space:
  assumes "py_lower s \<in> {''oxapay'', ''cryptomus'', ''nowpayments'', ''transak'', ''stripe''}"
  shows "py_strip s = s" and "s \<noteq> []"
proof -
  have "\<forall>c \<in> set (py_lower s). \<not> py_isspace c"
    using assms by (auto simp add: py_isspace_def)
  then show "py_strip s = s" by (rule lower_no_space_strip)
  show "s \<noteq> []" using assms by (auto simp add: py_lower_def)
qed

lemma validate_method_found:
  assumes "s \<noteq> []" and "py_strip s = s"
    and "find (\<lambda>v. py_lower v = py_lower s) valid_methods = Some m"
  shows "validate_payment_method (PStr s) = valid m"
  using assms by (simp add: validate_payment_method_def)

lemma validate_method_not_found:
  assumes "py_strip s = s"
    and "find (\<lambda>v. py_lower v = py_lower s) valid_methods = None"
  shows "\<not> is_valid (validate_payment_method (PStr s))"
  using assms by (simp add: validate_payment_method_def invalid_def)

lemma generate_unsupported:
  assumes "meth \<noteq> ''Transak''"
    and "meth \<notin> set [''OxaPay'', ''Cryptomus'', ''NOWPayments'', ''Stripe'']"
  shows "generate_payment_link float_str now cfg net stripe_session meth amt order_id uid = (None, [])"
  using assms by (simp add: generate_payment_link_def)

lemma names_lower_inj:
  assumes "m \<in> {''OxaPay'', ''Cryptomus'', ''NOWPayments'', ''Transak'', ''Stripe''}"
    and "n \<in> {''OxaPay'', ''Cryptomus'', ''NOWPayments'', ''Transak'', ''Stripe''}"
    and "py_lower m = py_lower n"
  shows "m = n"
  using assms by (auto simp add: lower_names)

lemma case_variant_not_name:
  assumes "m \<in> {''OxaPay'', ''Cryptomus'', ''NOWPayments'', ''Transak'', ''Stripe''}"
    and "py_lower s = py_lower m" and "s \<noteq> m"
  shows "s \<notin> {''OxaPay'', ''Cryptomus'', ''NOWPayments'', ''Transak'', ''Stripe''}"
proof
  assume "s \<in> {''OxaPay'', ''Cryptomus'', ''NOWPayments'', ''Transak'', ''Stripe''}"
  from names_lower_inj [OF this assms(1) assms(2)] show False using assms(3) by simp
qed

lemma case_variant_unsupported:
  assumes "m \<in> {''OxaPay'', ''Cryptomus'', ''NOWPayments'', ''Transak'', ''Stripe''}"
    and "py_lower s = py_lower m" and "s \<noteq> m"
  shows "generate_payment_link float_str now cfg net stripe_session s amt order_id uid = (None, [])"
  using case_variant_not_name [OF assms] by (intro generate_unsupported) simp_all

text \<open>
  C10 says that validation accepts every spelling that differs from a supported name
  only in letter case, and names \<open>transak\<close> as an example. \<^verbatim>\<open>validate_payment_method\<close>
  does not know Transak at all: it rejects \<open>transak\<close>, and it rejects \<open>Transak\<close>.
\<close>

theorem transak_rejected_by_validation_counterexample:
  "py_lower ''transak'' = py_lower ''Transak''
   \<and> \<not> is_valid (validate_payment_method (PStr ''transak''))
   \<and> \<not> is_valid (validate_payment_method (PStr ''Transak''))"
  by code_simp

text \<open>
  C10 as the code has it: a spelling of OxaPay, Cryptomus or NOWPayments that differs
  from the name in letter case passes \<^verbatim>\<open>validate_payment_method\<close>, which answers
  with the name in its proper spelling, and \<^verbatim>\<open>generate_payment_link\<close> returns
  \<^verbatim>\<open>None\<close> for it without a request. A spelling of Transak or Stripe in another case
  is rejected by both functions.
\<close>

lemma find_method:
  "py_lower s = ''oxapay'' \<Longrightarrow> find (\<lambda>v. py_lower v = py_lower s) valid_methods = Some ''OxaPay''"
  "py_lower s = ''cryptomus'' \<Longrightarrow> find (\<lambda>v. py_lower v = py_lower s) valid_methods = Some ''Cryptomus''"
  "py_lower s = ''nowpayments'' \<Longrightarrow> find (\<lambda>v. py_lower v = py_lower s) valid_methods = Some ''NOWPayments''"
  "py_lower s = ''transak'' \<Longrightarrow> find (\<lambda>v. py_lower v = py_lower s) valid_methods = None"
  "py_lower s = ''stripe'' \<Longrightarrow> find (\<lambda>v. py_lower v = py_lower s) valid_methods = None"
  by (simp_all add: valid_methods_def lower_names)

theorem method_case_mismatch:
  "(m \<in> {''OxaPay'', ''Cryptomus'', ''NOWPayments''} \<and> py_lower s = py_lower m \<and> s \<noteq> m
    \<longrightarrow> validate_payment_method (PStr s) = valid m
        \<and> generate_payment_link float_str now cfg net stripe_session s amt order_id uid = (None, []))
   \<and> (m \<in> {''Transak'', ''Stripe''} \<and> py_lower s = py_lower m \<and> s \<noteq> m
    \<longrightarrow> \<not> is_valid (validate_payment_method (PStr s))
        \<and> generate_payment_link float_str now cfg net stripe_session s amt order_id uid = (None, []))"
proof (intro conjI impI)
  assume a: "m \<in> {''OxaPay'', ''Cryptomus'', ''NOWPayments''} \<and> py_lower s = py_lower m \<and> s \<noteq> m"
  then consider "m = ''OxaPay''" | "m = ''Cryptomus''" | "m = ''NOWPayments''" by auto
  then have f: "find (\<lambda>v. py_lower v = py_lower s) valid_methods = Some m
          \<and> py_lower s \<in> {''oxapay'', ''cryptomus'', ''nowpayments'', ''transak'', ''stripe''}"
  proof cases
    case 1
    then have "py_lower s = ''oxapay''" using a lower_OxaPay by simp
    then show ?thesis using 1 find_method(1) by simp
  next
    case 2
    then have "py_lower s = ''cryptomus''" using a lower_Cryptomus by simp
    then show ?thesis using 2 find_method(2) by simp
  next
    case 3
    then have "py_lower s = ''nowpayments''" using a lower_NOWPayments by simp
    then show ?thesis using 3 find_method(3) by simp
  qed
  then have l: "py_lower s \<in> {''oxapay'', ''cryptomus'', ''nowpayments'', ''transak'', ''stripe''}"
    by (rule conjunct2)
  show "validate_payment_method (PStr s) = valid m"
    using letters_no_space(2) [OF l] letters_no_space(1) [OF l] f [THEN conjunct1]
    by (rule validate_method_found)
  have m5: "m \<in> {''OxaPay'', ''Cryptomus'', ''NOWPayments'', ''Transak'', ''Stripe''}"
    using a by auto
  have e: "py_lower s = py_lower m" and n: "s \<noteq> m" using a by simp_all
  show "generate_payment_link float_str now cfg net stripe_session s amt order_id uid = (None, [])"
    by (rule case_variant_unsupported [OF m5 e n])
next
  assume b: "m \<in> {''Transak'', ''Stripe''} \<and> py_lower s = py_lower m \<and> s \<noteq> m"
  then consider "m = ''Transak''" | "m = ''Stripe''" by auto
  then have f: "find (\<lambda>v. py_lower v = py_lower s) valid_methods = None
          \<and> py_lower s \<in> {''oxapay'', ''cryptomus'', ''nowpayments'', ''transak'', ''stripe''}"
  proof cases
    case 1
    then have "py_lower s = ''transak''" using b lower_Transak by simp
    then show ?thesis using find_method(4) by simp
  next
    case 2
    then have "py_lower s = ''stripe''" using b lower_Stripe by simp
    then show ?thesis using find_method(5) by simp
  qed
  then have l: "py_lower s \<in> {''oxapay'', ''cryptomus'', ''nowpayments'', ''transak'', ''stripe''}"
    by (rule conjunct2)
  show "\<not> is_valid (validate_payment_method (PStr s))"
    using letters_no_space(1) [OF l] f [THEN conjunct1] by (rule validate_method_not_found)
  have m5: "m \<in> {''OxaPay'', ''Cryptomus'', ''NOWPayments'', ''Transak'', ''Stripe''}"
    using b by auto
  have e: "py_lower s = py_lower m" and n: "s \<noteq> m" using b by simp_all
  show "generate_payment_link float_str now cfg net stripe_session s amt order_id uid = (None, [])"
    by (rule case_variant_unsupported [OF m5 e n])
qed

theorem method_case_mismatch_witness:
  "''OxaPay'' \<in> {''OxaPay'', ''Cryptomus'', ''NOWPayments''}
   \<and> py_lower ''oxapay'' = py_lower ''OxaPay'' \<and> ''oxapay'' \<noteq> ''OxaPay''
   \<and> validate_payment_method (PStr ''oxapay'') = valid ''OxaPay''
   \<and> generate_payment_link str_ten 0 (wallet_config None) always_timeout None ''oxapay'' (Fin 10) ''order_1'' 42
       = (None, [])
   \<and> ''Stripe'' \<in> {''Transak'', ''Stripe''}
   \<and> py_lower ''STRIPE'' = py_lower ''Stripe'' \<and> ''STRIPE'' \<noteq> ''Stripe''
   \<and> \<not> is_valid (validate_payment_method (PStr ''STRIPE''))"
proof -
  have h: "py_lower ''oxapay'' = py_lower ''OxaPay''" "py_lower ''STRIPE'' = py_lower ''Stripe''"
    by code_simp+
  have n: "''oxapay'' \<noteq> ''OxaPay''" "''STRIPE'' \<noteq> ''Stripe''"
    by simp_all
  have a: "validate_payment_method (PStr ''oxapay'') = valid ''OxaPay''
        \<and> generate_payment_link str_ten 0 (wallet_config None) always_timeout None ''oxapay'' (Fin 10) ''order_1'' 42
       = (None, [])"
    using h(1) n(1)
      method_case_mismatch [THEN conjunct1, of "''OxaPay''" "''oxapay''" str_ten 0 "wallet_config None" always_timeout None "Fin 10" "''order_1''" 42]
    by simp
  have b: "\<not> is_valid (validate_payment_method (PStr ''STRIPE''))"
    using h(2) n(2)
      method_case_mismatch [THEN conjunct2, of "''Stripe''" "''STRIPE''" str_ten 0 "wallet_config None" always_timeout None "Fin 10" "''order_1''" 42]
    by simp
  show ?thesis using h n a b by simp
qed

section \<open>Properties of the notification bridge\<close>

lemma send_waits_when_full:
  "full q \<Longrightarrow> send_payment_notification q order_id uid message admin_id = Waits"
  by (simp add: send_payment_notification_def put_def)

text \<open>
  C5 says that the queue is bounded and that a call at capacity fails with a
  backpressure error. The queue of the module is \<^verbatim>\<open>queue.Queue()\<close>, without a bound:
  with three notifications waiting it is not full, and the next call stores one
  more and returns \<open>True\<close>.
\<close>

theorem queue_without_bound_counterexample:
  "maxsize sync_queue = 0 \<and> queued 0 = sync_queue \<and> \<not> full (queued 3)
   \<and> send_payment_notification (queued 3) ''order_1'' 42 ''m'' None = Returns True (queued 4)"
  by code_simp

text \<open>
  C5 as the code has it: the queue has no capacity (\<open>maxsize = 0\<close>), so it is never
  full; every call appends its record, returns \<open>True\<close> and does not wait, however
  many records are queued, and no call ends in an error.
\<close>

theorem send_always_stores:
  assumes "maxsize q = 0"
  shows "\<not> full q
       \<and> send_payment_notification q order_id uid message admin_id
           = Returns True (q\<lparr>items := items q @
               [\<lparr>n_type = ''payment_notification'', n_order_id = order_id, n_user_id = uid,
                 n_message = message, n_admin_id = admin_id\<rparr>]\<rparr>)
       \<and> maxsize (q\<lparr>items := items q @
               [\<lparr>n_type = ''payment_notification'', n_order_id = order_id, n_user_id = uid,
                 n_message = message, n_admin_id = admin_id\<rparr>]\<rparr>) = 0"
  using assms by (simp add: full_def send_payment_notification_def put_def)

theorem send_always_stores_witness:
  "maxsize sync_queue = 0
   \<and> send_payment_notification sync_queue ''order_1'' 42 ''m'' None = Returns True (queued 1)"
proof -
  have m: "maxsize sync_queue = 0" by (simp add: sync_queue_def)
  show ?thesis
    using m send_always_stores [OF m, of "''order_1''" 42 "''m''" None]
    by (simp add: sync_queue_def queued_def paid_def)
qed

section \<open>Properties of the webhook verifier\<close>

lemma fold_accumulate:
  "fold (\<lambda>xy acc. acc \<or> fst xy \<noteq> snd xy) zs acc = (acc \<or> (\<exists>xy \<in> set zs. fst xy \<noteq> snd xy))"
  by (induction zs arbitrary: acc) auto

lemma accumulate_diff_iff: "accumulate_diff a b = (a \<noteq> b)"
  unfolding accumulate_diff_def fold_accumulate list_eq_iff_zip_eq [of a b]
  by (simp add: case_prod_beta)

lemma compare_digest_eq:
  "compare_digest a b = (if is_ascii a \<and> is_ascii b then Inr (a = b) else Inl TypeError)"
  by (simp add: compare_digest_def accumulate_diff_iff)

lemma hex_digit_ascii: "n < 16 \<Longrightarrow> (of_char (hex_digit n) :: nat) < 128"
  by (simp add: hex_digit_def)

lemma is_ascii_hexdigest: "is_ascii (hexdigest bs)"
  by (induction bs) (simp_all add: is_ascii_def hexdigest_def hex_digit_ascii)

lemma is_ascii_eq: "is_ascii a \<Longrightarrow> \<not> is_ascii b \<Longrightarrow> a \<noteq> b"
  by auto

text \<open>
  C8: \<^verbatim>\<open>verify_oxapay\<close> is a function of its three arguments; it answers \<open>True\<close>
  exactly when the API key is not empty and the signature is present, not empty and
  equal to the hexadecimal digest of the keyed hash of the payload bytes under the key
  bytes. The comparison runs over all positions. A signature made with another secret
  is rejected whenever its digest differs from the right one.
\<close>

theorem verify_oxapay_exact:
  "verify_oxapay hmac_sha256 payload signature api_key
     = (api_key \<noteq> [] \<and> signature \<noteq> Some []
        \<and> signature = Some (hexdigest (hmac_sha256 (encode api_key) (encode payload))))
   \<and> verify_oxapay hmac_sha256 payload None api_key = False
   \<and> verify_oxapay hmac_sha256 payload signature [] = False
   \<and> (hexdigest (hmac_sha256 (encode wrong_key) (encode payload))
         \<noteq> hexdigest (hmac_sha256 (encode api_key) (encode payload))
       \<longrightarrow> verify_oxapay hmac_sha256 payload
             (Some (hexdigest (hmac_sha256 (encode wrong_key) (encode payload)))) api_key = False)
   \<and> compare_digest (hexdigest (hmac_sha256 (encode api_key) (encode payload))) sg
       = (if is_ascii sg then Inr (hexdigest (hmac_sha256 (encode api_key) (encode payload)) = sg)
          else Inl TypeError)"
proof -
  let ?e = "hexdigest (hmac_sha256 (encode api_key) (encode payload))"
  have cmp: "(case compare_digest ?e s of Inl e \<Rightarrow> False | Inr b \<Rightarrow> b) = (?e = s)" for s
  proof (cases "is_ascii s")
    case True
    then show ?thesis by (simp add: compare_digest_eq is_ascii_hexdigest)
  next
    case False
    then have "?e \<noteq> s" using is_ascii_hexdigest by (rule is_ascii_eq [rotated])
    then show ?thesis using False by (simp add: compare_digest_eq)
  qed
  have main: "verify_oxapay hmac_sha256 payload sg' api_key
     = (api_key \<noteq> [] \<and> sg' \<noteq> Some [] \<and> sg' = Some ?e)" for sg'
  proof (cases sg')
    case None
    then show ?thesis by (simp add: verify_oxapay_def)
  next
    case (Some s)
    then show ?thesis
      using cmp [of s] by (cases "s = [] \<or> api_key = []") (auto simp add: verify_oxapay_def Let_def)
  qed
  have none: "verify_oxapay hmac_sha256 payload None api_key = False"
    by (simp add: verify_oxapay_def)
  have empty: "verify_oxapay hmac_sha256 payload signature [] = False"
    by (cases signature) (simp_all add: verify_oxapay_def)
  have wrong: "verify_oxapay hmac_sha256 payload
             (Some (hexdigest (hmac_sha256 (encode wrong_key) (encode payload)))) api_key = False"
    if "hexdigest (hmac_sha256 (encode wrong_key) (encode payload)) \<noteq> ?e"
    using that main [of "Some (hexdigest (hmac_sha256 (encode wrong_key) (encode payload)))"]
    by simp
  have cd: "compare_digest ?e sg = (if is_ascii sg then Inr (?e = sg) else Inl TypeError)"
    by (simp add: compare_digest_eq is_ascii_hexdigest)
  show ?thesis
    using main [of signature] none empty wrong cd by (intro conjI impI)
qed

theorem verify_oxapay_exact_witness:
  "hexdigest (concat_mac (encode ''w'') (encode ''ab''))
     \<noteq> hexdigest (concat_mac (encode ''k'') (encode ''ab''))
   \<and> verify_oxapay concat_mac ''ab'' (Some (hexdigest (concat_mac (encode ''w'') (encode ''ab'')))) ''k''
       = False
   \<and> verify_oxapay concat_mac ''ab'' (Some ''6b6162'') ''k'' = True"
proof -
  have d: "hexdigest (concat_mac (encode ''w'') (encode ''ab'')) = ''776162''"
    "hexdigest (concat_mac (encode ''k'') (encode ''ab'')) = ''6b6162''"
    by code_simp+
  have a: "verify_oxapay concat_mac ''ab'' (Some (hexdigest (concat_mac (encode ''w'') (encode ''ab'')))) ''k''
       = False"
    using verify_oxapay_exact [THEN conjunct2, THEN conjunct2, THEN conjunct2, THEN conjunct1,
        of concat_mac "''w''" "''ab''" "''k''"] d
    by simp
  have b: "verify_oxapay concat_mac ''ab'' (Some ''6b6162'') ''k'' = True"
    using verify_oxapay_exact [THEN conjunct1, of concat_mac "''ab''" "Some ''6b6162''" "''k''"] d
    by simp
  show ?thesis using a b d by simp
qed

section \<open>Properties of the validation layer\<close>

subsection \<open>Amounts given as numbers\<close>

lemma check_amount_rejects:
  "float_le f 0 \<or> float_gt f 10000 \<Longrightarrow> \<not> is_valid (check_amount f)"
  by (cases f) (auto simp add: check_amount_def invalid_def)

lemma validate_amount_float_rejects:
  assumes "float_le f 0 \<or> float_gt f 10000"
  shows "\<exists>v. validate_amount (PFloat f) = Inr v \<and> \<not> is_valid v"
  using check_amount_rejects [OF assms] by simp

lemma validate_amount_int_rejects:
  assumes "n \<le> 0 \<or> n > 10000"
  shows "validate_amount (PInt n) = Inl OverflowError
       \<or> (\<exists>v. validate_amount (PInt n) = Inr v \<and> \<not> is_valid v)"
proof (cases "float_overflows n")
  case True
  then show ?thesis by simp
next
  case False
  have "float_le (Fin (of_int n)) 0 \<or> float_gt (Fin (of_int n)) 10000"
    using assms by auto
  then show ?thesis using False check_amount_rejects by simp
qed

lemma rejected_amount_no_input:
  assumes "validate_amount amt = Inl e \<or> (\<exists>v. validate_amount amt = Inr v \<and> \<not> is_valid v)"
  shows "validate_transaction_input txid uid amt meth meta = None"
  using assms
  by (auto simp add: validate_transaction_input_def Let_def split: sum.splits)

text \<open>
  For an amount given as a number the check does what C6 says: a float or an int that
  is not positive or exceeds 10000 is rejected, and \<^verbatim>\<open>create_transaction\<close> leaves the
  database as it was.
\<close>

lemma create_transaction_rejects_number:
  assumes "amt = PFloat f \<and> (float_le f 0 \<or> float_gt f 10000)
         \<or> amt = PInt n \<and> (n \<le> 0 \<or> n > 10000)"
  shows "create_transaction raises now db txid uid amt meth meta = (False, db)"
proof -
  have "validate_amount amt = Inl OverflowError
        \<or> (\<exists>v. validate_amount amt = Inr v \<and> \<not> is_valid v)"
    using assms validate_amount_float_rejects validate_amount_int_rejects by blast
  then have "validate_transaction_input txid uid amt meth meta = None"
    by (intro rejected_amount_no_input) auto
  then show ?thesis by (simp add: create_transaction_def)
qed

text \<open>An accepted finite amount is a whole number of hundredths.\<close>

lemma check_amount_hundredths:
  assumes "sanitized_value (check_amount f) = Some (Fin x)"
  shows "\<exists>k::int. x = of_int k / 100"
proof (cases f)
  case (Fin y)
  then have "Fin x = py_round2 (Fin y)"
    using assms by (simp add: check_amount_def invalid_def valid_def split: if_splits)
  then have "x = of_int (round_half_even (y * 100)) / 100"
    by (simp only: py_round2.simps pyfloat.inject)
  then show ?thesis by blast
next
  case NaN
  then show ?thesis using assms by (simp add: check_amount_def invalid_def valid_def)
next
  case PosInf
  then show ?thesis using assms by (simp add: check_amount_def invalid_def valid_def)
next
  case NegInf
  then show ?thesis using assms by (simp add: check_amount_def invalid_def valid_def)
qed

lemma accepted_amount_hundredths:
  assumes "validate_amount amt = Inr v" and "sanitized_value v = Some (Fin x)"
  shows "\<exists>k::int. x = of_int k / 100"
proof -
  have "(\<exists>f. v = check_amount f) \<or> sanitized_value v = None"
    using assms(1)
    by (cases amt) (auto simp add: Let_def invalid_def split: if_splits option.splits)
  then obtain f where "v = check_amount f" using assms(2) by auto
  then show ?thesis using assms(2) check_amount_hundredths by blast
qed

subsection \<open>C6: an amount given as a string\<close>

text \<open>
  C6 says that every amount whose value is at most 0 is rejected and that
  \<^verbatim>\<open>create_transaction\<close> then writes no row. \<^verbatim>\<open>validate_amount\<close> removes every
  character of a string that is no digit and no dot before it reads the number, the
  minus sign too: the string \<open>-5\<close> is accepted as the amount 5, and
  \<^verbatim>\<open>create_transaction\<close> stores a row with it.
\<close>

theorem negative_amount_string_accepted:
  "validate_amount (PStr ''-5'') = Inr (valid (Fin 5))
   \<and> create_transaction False ''t0'' ledger_no_tx (PStr ''order_1'') (PInt 42) (PStr ''-5'')
        (PStr ''OxaPay'') (MetaStr ''m'')
      = (True, ledger_no_tx\<lparr>transactions := [order_1\<lparr>amount := Fin 5\<rparr>]\<rparr>)"
proof -
  have a: "validate_amount (PStr ''-5'') = Inr (valid (Fin 5))"
    by code_simp
  have v: "validate_transaction_input (PStr ''order_1'') (PInt 42) (PStr ''-5'') (PStr ''OxaPay'')
             (MetaStr ''m'')
           = Some \<lparr>v_tx_id = ''order_1'', v_user_id = 42, v_amount = Fin 5, v_method = ''OxaPay'',
                   v_metadata = ''m''\<rparr>"
    by code_simp
  have c: "create_transaction False ''t0'' ledger_no_tx (PStr ''order_1'') (PInt 42) (PStr ''-5'')
        (PStr ''OxaPay'') (MetaStr ''m'')
      = (True, ledger_no_tx\<lparr>transactions := [order_1\<lparr>amount := Fin 5\<rparr>]\<rparr>)"
    by (simp add: create_transaction_def v insert_tx_stmt_def ledger_no_tx_def order_1_def
        init_columns_def)
  show ?thesis using a c by simp
qed

subsection \<open>Stripping and cleaning\<close>

lemma set_py_strip: "set (py_strip s) \<subseteq> set s"
proof
  fix c assume "c \<in> set (py_strip s)"
  then have "c \<in> set (dropWhile py_isspace (rev (dropWhile py_isspace s)))"
    by (simp add: py_strip_def)
  then have "c \<in> set (rev (dropWhile py_isspace s))" by (rule set_dropWhileD)
  then have "c \<in> set (dropWhile py_isspace s)" by simp
  then show "c \<in> set s" by (rule set_dropWhileD)
qed

lemma length_py_strip: "length (py_strip s) \<le> length s"
proof -
  have "length (dropWhile py_isspace (rev (dropWhile py_isspace s)))
        \<le> length (rev (dropWhile py_isspace s))"
    by (rule length_dropWhile_le)
  also have "\<dots> = length (dropWhile py_isspace s)" by simp
  also have "\<dots> \<le> length s" by (rule length_dropWhile_le)
  finally show ?thesis by (simp add: py_strip_def)
qed

lemma strip_prefix:
  "dropWhile P s = rev (dropWhile P (rev (dropWhile P s))) @ rev (takeWhile P (rev (dropWhile P s)))"
proof -
  have "rev (dropWhile P s) = takeWhile P (rev (dropWhile P s)) @ dropWhile P (rev (dropWhile P s))"
    by simp
  then have "rev (rev (dropWhile P s))
             = rev (takeWhile P (rev (dropWhile P s)) @ dropWhile P (rev (dropWhile P s)))"
    by (rule arg_cong)
  then show ?thesis by (simp only: rev_rev_ident rev_append)
qed

lemma py_strip_starts: "dropWhile py_isspace (py_strip s) = py_strip s"
proof (cases "py_strip s = []")
  case True
  then show ?thesis by simp
next
  case False
  let ?t = "dropWhile py_isspace s"
  have split: "?t = py_strip s @ rev (takeWhile py_isspace (rev ?t))"
    unfolding py_strip_def by (rule strip_prefix)
  then have "?t \<noteq> []" using False by (metis append_is_Nil_conv)
  then have "\<not> py_isspace (hd ?t)" by (rule hd_dropWhile)
  moreover have "hd ?t = hd (py_strip s)"
    using split False by (metis hd_append2)
  ultimately have "\<not> py_isspace (hd (py_strip s))" by simp
  then show ?thesis by (simp add: dropWhile_eq_self_iff)
qed

lemma py_strip_idem: "py_strip (py_strip s) = py_strip s"
proof -
  have "py_strip (py_strip s) = rev (dropWhile py_isspace (rev (py_strip s)))"
    unfolding py_strip_def [of "py_strip s"] py_strip_starts ..
  also have "rev (py_strip s) = dropWhile py_isspace (rev (dropWhile py_isspace s))"
    by (simp add: py_strip_def)
  also have "rev (dropWhile py_isspace (dropWhile py_isspace (rev (dropWhile py_isspace s))))
             = py_strip s"
    by (simp add: py_strip_def)
  finally show ?thesis .
qed

lemma sanitize_string_clean: "c \<in> set (sanitize_string t n) \<Longrightarrow> \<not> dangerous c"
  by (auto simp add: sanitize_string_def Let_def split: if_splits dest: in_set_takeD)

lemma sanitize_string_short: "length (sanitize_string t n) \<le> n"
  by (simp add: sanitize_string_def Let_def)

lemma filter_all: "\<forall>c \<in> set xs. P c \<Longrightarrow> filter P xs = xs"
  by (induction xs) simp_all

lemma sanitize_string_of_clean:
  assumes "\<forall>c \<in> set s. \<not> dangerous c" and "length (py_strip s) \<le> n"
  shows "sanitize_string s n = py_strip s"
proof (cases "s = []")
  case True
  then show ?thesis by (simp add: sanitize_string_def py_strip_def)
next
  case False
  have "\<forall>c \<in> set (py_strip s). \<not> dangerous c" using assms(1) set_py_strip by blast
  then have "filter (\<lambda>c. \<not> dangerous c) (py_strip s) = py_strip s" by (rule filter_all)
  then show ?thesis using False assms(2) by (simp add: sanitize_string_def Let_def)
qed

lemma sanitize_string_again:
  "sanitize_string (sanitize_string s n) n = py_strip (sanitize_string s n)"
proof (rule sanitize_string_of_clean)
  show "\<forall>c \<in> set (sanitize_string s n). \<not> dangerous c"
    using sanitize_string_clean by blast
  show "length (py_strip (sanitize_string s n)) \<le> n"
    using length_py_strip [of "sanitize_string s n"] sanitize_string_short [of s n] by simp
qed

lemma set_join_first: "set x \<subseteq> set (join sep (x # xs))"
  by (cases xs) auto

lemma quote_in_json_object:
  assumes "kvs \<noteq> []"
  shows "CHR 0x22 \<in> set (json_dumps (JObj kvs))"
proof -
  obtain kv rest where kvs: "kvs = kv # rest" using assms by (cases kvs) auto
  have "CHR 0x22 \<in> set (json_string (fst kv) @ '': '' @ json_dumps (snd kv))"
    by (simp add: json_string_def)
  then have "CHR 0x22 \<in> set (join '', ''
      (map (\<lambda>kv. json_string (fst kv) @ '': '' @ json_dumps (snd kv)) kvs))"
    unfolding kvs list.map using set_join_first by blast
  then show ?thesis by simp
qed

lemma dangerous_quote: "dangerous (CHR 0x22)"
  by (simp add: dangerous_def)

subsection \<open>C9: sanitising twice\<close>

text \<open>
  C9 says that sanitising an already sanitised value changes nothing. The string
  \<open>< a\<close> is first stripped, then loses its \<open><\<close>, which leaves a blank in front; a
  second application strips that blank. A map is turned into JSON text, whose double
  quotes a second application removes.
\<close>

theorem sanitize_not_idempotent_counterexample:
  "sanitize_transaction_metadata (MetaStr ''< a'') = '' a''
   \<and> sanitize_transaction_metadata (MetaStr '' a'') = ''a''
   \<and> sanitize_transaction_metadata (MetaStr (sanitize_transaction_metadata (MetaStr ''< a'')))
       \<noteq> sanitize_transaction_metadata (MetaStr ''< a'')
   \<and> sanitize_transaction_metadata (MetaStr (sanitize_transaction_metadata (MetaDict [(''k'', JStr ''v'')])))
       \<noteq> sanitize_transaction_metadata (MetaDict [(''k'', JStr ''v'')])"
  by code_simp

text \<open>
  C9 as the code has it: applied to its own output for a string, the function returns
  that output stripped of the white space at its ends, so it changes nothing exactly
  when the output neither begins nor ends with white space; this is the case for
  every string that has none of the characters \<open>< > " ' ;\<close> and, once stripped, at
  most 1000 characters. For a map with at least one entry the second application
  always changes the output.
\<close>

theorem sanitize_twice:
  "sanitize_transaction_metadata (MetaStr (sanitize_transaction_metadata (MetaStr s)))
     = py_strip (sanitize_transaction_metadata (MetaStr s))
   \<and> ((\<forall>c \<in> set s. \<not> dangerous c) \<and> length (py_strip s) \<le> 1000
       \<longrightarrow> sanitize_transaction_metadata (MetaStr (sanitize_transaction_metadata (MetaStr s)))
           = sanitize_transaction_metadata (MetaStr s))
   \<and> (kvs \<noteq> []
       \<longrightarrow> sanitize_transaction_metadata (MetaStr (sanitize_transaction_metadata (MetaDict kvs)))
           \<noteq> sanitize_transaction_metadata (MetaDict kvs))"
proof (intro conjI impI)
  show "sanitize_transaction_metadata (MetaStr (sanitize_transaction_metadata (MetaStr s)))
     = py_strip (sanitize_transaction_metadata (MetaStr s))"
    by (simp add: sanitize_string_again)
next
  assume a: "(\<forall>c \<in> set s. \<not> dangerous c) \<and> length (py_strip s) \<le> 1000"
  then have e: "sanitize_string s 1000 = py_strip s" by (simp add: sanitize_string_of_clean)
  have "sanitize_string (sanitize_string s 1000) 1000 = py_strip (sanitize_string s 1000)"
    by (rule sanitize_string_again)
  also have "\<dots> = py_strip (py_strip s)" by (simp only: e)
  also have "\<dots> = py_strip s" by (rule py_strip_idem)
  also have "\<dots> = sanitize_string s 1000" by (simp only: e)
  finally show "sanitize_transaction_metadata (MetaStr (sanitize_transaction_metadata (MetaStr s)))
           = sanitize_transaction_metadata (MetaStr s)"
    by simp
next
  assume k: "kvs \<noteq> []"
  let ?d = "sanitize_transaction_metadata (MetaDict kvs)"
  have "CHR 0x22 \<in> set ?d" using k by (simp add: quote_in_json_object del: json_dumps.simps)
  moreover have "CHR 0x22 \<notin> set (sanitize_string ?d 1000)"
    using sanitize_string_clean dangerous_quote by blast
  ultimately show "sanitize_transaction_metadata (MetaStr ?d) \<noteq> ?d"
    by (metis sanitize_transaction_metadata.simps(2))
qed

theorem sanitize_twice_witness:
  "list_all (\<lambda>c. \<not> dangerous c) '' a b '' \<and> length (py_strip '' a b '') \<le> 1000
   \<and> sanitize_transaction_metadata (MetaStr (sanitize_transaction_metadata (MetaStr '' a b '')))
       = sanitize_transaction_metadata (MetaStr '' a b '')
   \<and> [(''k'', JStr ''v'')] \<noteq> []
   \<and> sanitize_transaction_metadata (MetaStr (sanitize_transaction_metadata (MetaDict [(''k'', JStr ''v'')])))
       \<noteq> sanitize_transaction_metadata (MetaDict [(''k'', JStr ''v'')])"
proof -
  have h: "(\<forall>c \<in> set '' a b ''. \<not> dangerous c) \<and> length (py_strip '' a b '') \<le> 1000"
    by (simp add: dangerous_def py_strip_def py_isspace_def)
  have a: "sanitize_transaction_metadata (MetaStr (sanitize_transaction_metadata (MetaStr '' a b '')))
       = sanitize_transaction_metadata (MetaStr '' a b '')"
    using h sanitize_twice [THEN conjunct2, THEN conjunct1, of "'' a b ''"] by simp
  have k: "[(''k'', JStr ''v'')] \<noteq> []" by simp
  have b: "sanitize_transaction_metadata (MetaStr (sanitize_transaction_metadata (MetaDict [(''k'', JStr ''v'')])))
       \<noteq> sanitize_transaction_metadata (MetaDict [(''k'', JStr ''v'')])"
    using k sanitize_twice [THEN conjunct2, THEN conjunct2, of "[(''k'', JStr ''v'')]"] by simp
  have l: "list_all (\<lambda>c. \<not> dangerous c) '' a b ''"
    by (simp add: dangerous_def)
  show ?thesis using h l a k b by simp
qed

end
